theory Spec2Isabelle
  imports Main
begin

section \<open>JavaScript values\<close>

text \<open>
  The connector of \<^verbatim>\<open>lib/minio.js\<close> moves JavaScript values between its caller
  and the storage client without looking into them, apart from truthiness tests
  (\<^verbatim>\<open>if (err)\<close>, \<^verbatim>\<open>if (self.client)\<close>, \<^verbatim>\<open>if (callback)\<close>), one comparison with
  \<^verbatim>\<open>undefined\<close> and property reads on the settings object. Values are modelled
  by the fragment below. Numbers are the integer-valued ones; \<open>JFn\<close> is a function
  object and \<open>JRef\<close> any other host object known by its identity only (an
  \<^verbatim>\<open>Error\<close> instance, a stream, a client handle, a \<^verbatim>\<open>Date\<close>, a promise). A
  plain object is its list of own enumerable properties in insertion order.
\<close>

datatype jsval =
    JUndefined
  | JNull
  | JBool bool
  | JNum int
  | JStr string
  | JArr "jsval list"
  | JObj "(string \<times> jsval) list"
  | JFn nat
  | JRef nat

type_synonym jsobj = "(string \<times> jsval) list"

fun truthy :: "jsval \<Rightarrow> bool" where
  "truthy JUndefined = False"
| "truthy JNull = False"
| "truthy (JBool b) = b"
| "truthy (JNum n) = (n \<noteq> 0)"
| "truthy (JStr s) = (s \<noteq> [])"
| "truthy (JArr xs) = True"
| "truthy (JObj kvs) = True"
| "truthy (JFn f) = True"
| "truthy (JRef r) = True"

text \<open>What can be called: calling anything else throws a \<^verbatim>\<open>TypeError\<close>.\<close>

fun callable :: "jsval \<Rightarrow> bool" where
  "callable (JFn f) = True"
| "callable v = False"

text \<open>\<^verbatim>\<open>a || b\<close>\<close>

definition js_or :: "jsval \<Rightarrow> jsval \<Rightarrow> jsval" where
  "js_or a b = (if truthy a then a else b)"

text \<open>Reading the property \<open>k\<close> of a plain object: \<^verbatim>\<open>undefined\<close> when it has none.\<close>

definition get_prop :: "jsobj \<Rightarrow> string \<Rightarrow> jsval" where
  "get_prop obj k = (case map_of obj k of None \<Rightarrow> JUndefined | Some v \<Rightarrow> v)"

text \<open>The assignment \<^verbatim>\<open>obj[k] = v\<close>: an existing property keeps its place.\<close>

fun set_prop :: "(string \<times> 'v) list \<Rightarrow> string \<Rightarrow> 'v \<Rightarrow> (string \<times> 'v) list" where
  "set_prop [] k v = [(k, v)]"
| "set_prop ((k', v') # kvs) k v =
     (if k' = k then (k, v) # kvs else (k', v') # set_prop kvs k v)"

definition Object_keys :: "jsobj \<Rightarrow> string list" where
  "Object_keys obj = map fst obj"

text \<open>
  The \<open>i\<close>-th positional parameter of a call made with the argument list \<open>as\<close>:
  a parameter the caller left out is \<^verbatim>\<open>undefined\<close>.
\<close>

definition arg :: "jsval list \<Rightarrow> nat \<Rightarrow> jsval" where
  "arg as i = (if i < length as then as ! i else JUndefined)"

text \<open>The error the runtime throws on a call or a property read that cannot be made.\<close>

definition TypeError :: jsval where
  "TypeError = JObj [(''name'', JStr ''TypeError'')]"

datatype 'a completion = Normal 'a | Thrown jsval

section \<open>The storage client and the rest of the host\<close>

text \<open>
  A method call on the client handle: the method's name, the positional arguments and
  whether a completion callback \<^verbatim>\<open>function(err, data)\<close> was passed after them.
\<close>

datatype call = ClientCall (call_meth: string) (call_args: "jsval list") (call_cb: bool)

text \<open>
  What the client does with a call: it throws, or it returns a value and later invokes
  the completion callback it was given with each of the listed \<open>(err, data)\<close> pairs.
\<close>

datatype reply = Throws jsval | Returns jsval "(jsval \<times> jsval) list"

text \<open>
  Everything the file uses and does not define: the module object bound to
  \<^verbatim>\<open>minio\<close>, the flag \<^verbatim>\<open>debug.enabled\<close>, the constructor \<^verbatim>\<open>new minio.Client(opts)\<close>
  (the identity of the new handle, or the error it throws), the methods of a handle,
  \<^verbatim>\<open>new self.client.Policy()\<close> and the setters of the policy object,
  \<^verbatim>\<open>JSON.stringify\<close>, the \<open>k\<close>-th evaluation of
  \<^verbatim>\<open>new Date(Date.now() + x * 1000)\<close>, and which functions and host objects have a
  callable \<^verbatim>\<open>then\<close> property.
\<close>

record host =
  minio :: jsval
  debug_enabled :: jsval
  new_Client :: "jsobj \<Rightarrow> nat completion"
  client_method :: "nat \<Rightarrow> call \<Rightarrow> reply"
  policy_call :: "nat \<Rightarrow> string \<Rightarrow> jsval list \<Rightarrow> jsval completion"
  JSON_stringify :: "jsval \<Rightarrow> jsval completion"
  new_Date :: "nat \<Rightarrow> jsval \<Rightarrow> jsval"
  has_then :: "jsval \<Rightarrow> bool"

section \<open>The connector object\<close>

text \<open>
  An entry of the operation table: \<^verbatim>\<open>MinioDB.prototype.m.bind(self)\<close>, the prototype
  method named \<open>m\<close> bound to the object with identity \<open>self\<close>.
\<close>

datatype bound = Bound (bound_method: string) (bound_this: nat)

text \<open>
  The data source of the host framework, as far as the file touches it: its settings
  (\<open>None\<close> when the property is \<^verbatim>\<open>undefined\<close>), its \<^verbatim>\<open>connecting\<close> flag, the
  table stored under \<^verbatim>\<open>dataSource.DataAccessObject\<close>, the callbacks of the listeners
  registered with \<^verbatim>\<open>once('connected', ...)\<close> and the model classes handed to
  \<^verbatim>\<open>mixin\<close>.
\<close>

record DataSource =
  ds_settings :: "jsobj option"
  connecting :: jsval
  ds_DataAccessObject :: "(string \<times> bound) list option"
  once_connected :: "jsval list"
  mixins :: "jsval list"

text \<open>
  The connector instance. \<open>oid\<close> is the identity of the object; \<open>own\<close> holds the
  twelve copies \<^verbatim>\<open>this.endPoint\<close> ... \<^verbatim>\<open>this.bucketName\<close> the constructor makes;
  \<open>models\<close> is \<^verbatim>\<open>this._models\<close>, each model name with the class stored under its
  \<^verbatim>\<open>.model\<close> (filled by the inherited \<^verbatim>\<open>define\<close> of the framework);
  \<open>connector\<close> is the property set by \<^verbatim>\<open>self.connector = self\<close>. The data source
  and the connector refer to each other; the model keeps the data source inside the
  connector.
\<close>

record MinioDB =
  oid :: nat
  settings :: jsobj
  own :: jsobj
  debug :: jsval
  models :: "(string \<times> jsval) list"
  DataAccessObject :: "(string \<times> bound) list"
  client :: jsval
  connector :: "nat option"
  dataSource :: "DataSource option"

text \<open>A line of diagnostics: \<^verbatim>\<open>debug(label ...)\<close> or \<^verbatim>\<open>g.error(..., self.settings.endpoint, err)\<close>.\<close>

datatype diag = Debug string | GError jsval jsval

definition instance_props :: "string list" where
  "instance_props = [''endPoint'', ''port'', ''useSSL'', ''accessKey'', ''secretKey'',
     ''region'', ''transport'', ''sessionToken'', ''partSize'', ''pathStyle'',
     ''transportAgent'', ''bucketName'']"

text \<open>
  \<^verbatim>\<open>new MinioDB(settings, dataSource)\<close> for the fresh object \<open>this\<close>, with the
  diagnostics it writes. The base constructor \<^verbatim>\<open>Connector.call(this, 'miniodb', settings)\<close>
  belongs to the framework; the fields it sets are set again by the lines that follow it.
\<close>

definition new_MinioDB :: "host \<Rightarrow> nat \<Rightarrow> jsobj option \<Rightarrow> MinioDB \<times> diag list" where
  "new_MinioDB h this settings0 =
     (let settings1 = (case settings0 of None \<Rightarrow> [] | Some s \<Rightarrow> s);
          dbg = js_or (get_prop settings1 ''debug'') (debug_enabled h)
      in (\<lparr> oid = this,
             settings = settings1,
             own = map (\<lambda>k. (k, get_prop settings1 k)) instance_props,
             debug = dbg,
             models = [],
             DataAccessObject = [],
             client = JUndefined,
             connector = None,
             dataSource = None \<rparr>,
          if truthy dbg then [Debug ''Settings''] else []))"

section \<open>Forwarding an operation to the client\<close>

text \<open>
  The state a promise reaches. \<open>Follows x\<close>: it was resolved with the thenable \<open>x\<close>
  and takes whatever outcome \<open>x\<close> reports through its \<^verbatim>\<open>then\<close>; it is never
  fulfilled with \<open>x\<close> itself.
\<close>

datatype promise = Pending | Fulfilled jsval | Rejected jsval | Follows jsval

text \<open>
  A thenable is an object or function whose \<^verbatim>\<open>then\<close> property is callable: for a
  plain object the property is read from it, for a function or a host object the host
  knows.
\<close>

definition thenable :: "host \<Rightarrow> jsval \<Rightarrow> bool" where
  "thenable h x =
     (case x of
        JObj kvs \<Rightarrow> callable (get_prop kvs ''then'')
      | JFn f \<Rightarrow> has_then h (JFn f)
      | JRef r \<Rightarrow> has_then h (JRef r)
      | _ \<Rightarrow> False)"

text \<open>\<^verbatim>\<open>resolve(x)\<close> on a pending promise; \<^verbatim>\<open>reject(e)\<close> never looks into \<open>e\<close>.\<close>

definition resolve_value :: "host \<Rightarrow> jsval \<Rightarrow> promise" where
  "resolve_value h x = (if thenable h x then Follows x else Fulfilled x)"

text \<open>What a method returns: a promise (in the state it reaches) or a plain value.\<close>

datatype retval = PromiseOf promise | Value jsval

text \<open>
  What one call of an operation does: what it returns or throws, the calls it makes on
  the client handle, the invocations (callee, arguments) of a callback its caller
  supplied, the exceptions thrown inside the completion callback it handed to the
  client (they surface in the client, not in the caller), and its diagnostics.
\<close>

record op_result =
  returned :: "retval completion"
  calls :: "call list"
  delivered :: "(jsval \<times> jsval list) list"
  raised :: "jsval list"
  logged :: "diag list"

text \<open>
  \<^verbatim>\<open>self.client.m(...)\<close>: without a client handle the property read throws. The call
  is then never made.
\<close>

definition client_call :: "MinioDB \<Rightarrow> host \<Rightarrow> call \<Rightarrow> reply" where
  "client_call self h c =
     (case client self of JRef r \<Rightarrow> client_method h r c | _ \<Rightarrow> Throws TypeError)"

definition made :: "MinioDB \<Rightarrow> call \<Rightarrow> call list" where
  "made self c = (case client self of JRef r \<Rightarrow> [c] | _ \<Rightarrow> [])"

text \<open>\<^verbatim>\<open>if (self.debug) { debug(label ...) }\<close>\<close>

definition dbg :: "MinioDB \<Rightarrow> string \<Rightarrow> diag list" where
  "dbg self label = (if truthy (debug self) then [Debug label] else [])"

text \<open>
  The three ways the completion callbacks end: \<^verbatim>\<open>resolve(data)\<close>, \<^verbatim>\<open>resolve()\<close>
  and \<^verbatim>\<open>resolve(true)\<close>.
\<close>

datatype resolves = Data | Nothing | Const jsval

text \<open>
  The completion callback
  \<^verbatim>\<open>function(err, data) { if (err) { if (self.debug) g.error(...); reject(err); } else { resolve(...); } }\<close>:
  the state it puts a pending promise in, and what it logs.
\<close>

fun on_completion :: "host \<Rightarrow> resolves \<Rightarrow> jsval \<times> jsval \<Rightarrow> promise" where
  "on_completion h rw (err, data) =
     (if truthy err then Rejected err
      else resolve_value h
             (case rw of Data \<Rightarrow> data | Nothing \<Rightarrow> JUndefined | Const v \<Rightarrow> v))"

fun on_completion_log :: "MinioDB \<Rightarrow> jsval \<times> jsval \<Rightarrow> diag list" where
  "on_completion_log self (err, data) =
     (if truthy err \<and> truthy (debug self)
      then [GError (get_prop (settings self) ''endpoint'') err] else [])"

text \<open>
  \<^verbatim>\<open>new Promise((resolve, reject) => { self.client.m(as..., function(err, data) {...}); })\<close>:
  an exception inside the executor rejects the promise; a promise settles once, so only
  the first invocation of the callback counts; without one it stays pending.
\<close>

definition promise_of_callback :: "MinioDB \<Rightarrow> host \<Rightarrow> call \<Rightarrow> resolves \<Rightarrow> promise" where
  "promise_of_callback self h c rw =
     (case client_call self h c of
        Throws e \<Rightarrow> Rejected e
      | Returns v invs \<Rightarrow> (case invs of [] \<Rightarrow> Pending | i # _ \<Rightarrow> on_completion h rw i))"

definition callback_log :: "MinioDB \<Rightarrow> host \<Rightarrow> call \<Rightarrow> diag list" where
  "callback_log self h c =
     (case client_call self h c of
        Throws e \<Rightarrow> []
      | Returns v invs \<Rightarrow> concat (map (on_completion_log self) invs))"

text \<open>
  The shape of most operations: log, then return the promise around the client call
  \<open>m\<close> made with the arguments \<open>as\<close> and a completion callback.
\<close>

definition forward_callback ::
    "MinioDB \<Rightarrow> host \<Rightarrow> string \<Rightarrow> string \<Rightarrow> jsval list \<Rightarrow> resolves \<Rightarrow> op_result" where
  "forward_callback self h label m as rw =
     \<lparr> returned = Normal (PromiseOf (promise_of_callback self h (ClientCall m as True) rw)),
       calls = made self (ClientCall m as True),
       delivered = [],
       raised = [],
       logged = dbg self label @ callback_log self h (ClientCall m as True) \<rparr>"

text \<open>
  The shape of the stream-returning operations:
  \<^verbatim>\<open>new Promise((resolve, reject) => { const stream = self.client.m(as...); resolve(stream); })\<close>.
\<close>

definition forward_stream ::
    "MinioDB \<Rightarrow> host \<Rightarrow> string \<Rightarrow> string \<Rightarrow> jsval list \<Rightarrow> op_result" where
  "forward_stream self h label m as =
     \<lparr> returned = Normal (PromiseOf
         (case client_call self h (ClientCall m as False) of
            Throws e \<Rightarrow> Rejected e
          | Returns stream invs \<Rightarrow> resolve_value h stream)),
       calls = made self (ClientCall m as False),
       delivered = [],
       raised = [],
       logged = dbg self label \<rparr>"

section \<open>The operations\<close>

text \<open>
  Each prototype method takes the connector, the host and the argument list of the
  call; its parameters are read by position, in the order of the source's signature
  (given above each definition). The operations do not change the connector.
\<close>

type_synonym operation = "MinioDB \<Rightarrow> host \<Rightarrow> jsval list \<Rightarrow> op_result"

text \<open>
  \<^verbatim>\<open>makeBucket(bucketName, region)\<close>: the client is called without the region when
  \<^verbatim>\<open>region === undefined\<close>; both callbacks end in \<^verbatim>\<open>resolve()\<close>.
\<close>

definition makeBucket :: operation where
  "makeBucket self h as =
     (if arg as 1 = JUndefined
      then forward_callback self h ''makeBucket'' ''makeBucket'' [arg as 0] Nothing
      else forward_callback self h ''makeBucket'' ''makeBucket'' [arg as 0, arg as 1] Nothing)"

text \<open>\<^verbatim>\<open>listBuckets()\<close>\<close>

definition listBuckets :: operation where
  "listBuckets self h as =
     forward_callback self h ''listBuckets'' ''listBuckets'' [] Data"

text \<open>\<^verbatim>\<open>bucketExists(bucketName)\<close>\<close>

definition bucketExists :: operation where
  "bucketExists self h as =
     forward_callback self h ''bucketExists'' ''bucketExists'' [arg as 0] Data"

text \<open>\<^verbatim>\<open>removeBucket(bucketName)\<close>\<close>

definition removeBucket :: operation where
  "removeBucket self h as =
     forward_callback self h ''removeBucket'' ''removeBucket'' [arg as 0] Nothing"

text \<open>\<^verbatim>\<open>listObjects(bucketName, prefix, recursive, listOpts)\<close>\<close>

definition listObjects :: operation where
  "listObjects self h as =
     forward_stream self h ''listObjects'' ''listObjects''
       [arg as 0, arg as 1, arg as 2, arg as 3]"

text \<open>
  \<^verbatim>\<open>listObjectsV2(bucketName, prefix, recursive)\<close>: the three parameters reach the
  client as one object \<^verbatim>\<open>{Bucket: bucketName, Prefix: prefix, Recursive: recursive}\<close>.
\<close>

definition listObjectsV2 :: operation where
  "listObjectsV2 self h as =
     forward_stream self h ''listObjectsV2'' ''listObjectsV2''
       [JObj [(''Bucket'', arg as 0), (''Prefix'', arg as 1), (''Recursive'', arg as 2)]]"

text \<open>\<^verbatim>\<open>listObjectsV2WithMetadata(bucketName, prefix, recursive, startAfter)\<close>\<close>

definition listObjectsV2WithMetadata :: operation where
  "listObjectsV2WithMetadata self h as =
     forward_stream self h ''listObjectsV2WithMetadata'' ''listObjectsV2''
       [arg as 0, arg as 1, arg as 2, arg as 3]"

text \<open>
  \<^verbatim>\<open>listIncompleteUploads(bucketName, prefix, recursive, callback)\<close>: the callback
  parameter is never used.
\<close>

definition listIncompleteUploads :: operation where
  "listIncompleteUploads self h as =
     forward_stream self h ''listIncompleteUploads'' ''listIncompleteUploads''
       [JObj [(''Bucket'', arg as 0), (''Prefix'', arg as 1), (''Recursive'', arg as 2)]]"

text \<open>
  \<^verbatim>\<open>getBucketVersioning(bucketName, callback)\<close> builds no promise. It replaces a
  falsy \<^verbatim>\<open>callback\<close> by a function that does nothing, calls the client outside any
  executor (an exception of the call leaves the method), and its completion callback
  hands the outcome to \<^verbatim>\<open>callback\<close>: \<^verbatim>\<open>callback(err)\<close> or
  \<^verbatim>\<open>callback(null, data)\<close>. A truthy \<^verbatim>\<open>callback\<close> that is not a function is kept
  by \<^verbatim>\<open>callback || function() { }\<close>, and calling it throws a \<^verbatim>\<open>TypeError\<close> inside
  the completion callback: nothing is invoked. The method returns \<^verbatim>\<open>undefined\<close>.
\<close>

fun getBucketVersioning_callback :: "jsval \<Rightarrow> jsval \<times> jsval \<Rightarrow> (jsval \<times> jsval list) list" where
  "getBucketVersioning_callback callback (err, data) =
     (if callable callback
      then [(callback, if truthy err then [err] else [JNull, data])]
      else [])"

fun getBucketVersioning_raised :: "jsval \<Rightarrow> jsval \<times> jsval \<Rightarrow> jsval list" where
  "getBucketVersioning_raised callback (err, data) =
     (if truthy callback \<and> \<not> callable callback then [TypeError] else [])"

definition getBucketVersioning :: operation where
  "getBucketVersioning self h as =
     (case client_call self h
             (ClientCall ''getBucketVersioning'' [JObj [(''Bucket'', arg as 0)]] True) of
        Throws e \<Rightarrow>
          \<lparr> returned = Thrown e,
            calls = made self
              (ClientCall ''getBucketVersioning'' [JObj [(''Bucket'', arg as 0)]] True),
            delivered = [],
            raised = [],
            logged = dbg self ''getBucketVersioning'' \<rparr>
      | Returns v invs \<Rightarrow>
          \<lparr> returned = Normal (Value JUndefined),
            calls = made self
              (ClientCall ''getBucketVersioning'' [JObj [(''Bucket'', arg as 0)]] True),
            delivered = concat (map (getBucketVersioning_callback (arg as 1)) invs),
            raised = concat (map (getBucketVersioning_raised (arg as 1)) invs),
            logged = dbg self ''getBucketVersioning''
              @ concat (map (on_completion_log self) invs) \<rparr>)"

text \<open>
  \<^verbatim>\<open>setBucketVersioning(bucketName, versioningConfig)\<close> builds the promise of the
  usual shape and does not return it: the statement is \<^verbatim>\<open>new Promise(...)\<close> without
  \<^verbatim>\<open>return\<close>, so the method returns \<^verbatim>\<open>undefined\<close>.
\<close>

definition setBucketVersioning :: operation where
  "setBucketVersioning self h as =
     (forward_callback self h ''setBucketVersioning'' ''setBucketVersioning''
        [arg as 0, arg as 1] Data)
     \<lparr> returned := Normal (Value JUndefined) \<rparr>"

text \<open>\<^verbatim>\<open>setBucketReplication(bucketName, replicationConfig)\<close>\<close>

definition setBucketReplication :: operation where
  "setBucketReplication self h as =
     forward_callback self h ''setBucketReplication'' ''setBucketReplication''
       [arg as 0, arg as 1] Data"

text \<open>\<^verbatim>\<open>getBucketReplication(bucketName)\<close>\<close>

definition getBucketReplication :: operation where
  "getBucketReplication self h as =
     forward_callback self h ''getBucketReplication'' ''getBucketReplication''
       [arg as 0] Data"

text \<open>\<^verbatim>\<open>removeBucketReplication(bucketName)\<close>\<close>

definition removeBucketReplication :: operation where
  "removeBucketReplication self h as =
     forward_callback self h ''removeBucketReplication'' ''removeBucketReplication''
       [arg as 0] Data"

text \<open>\<^verbatim>\<open>getBucketTagging(bucketName, callback)\<close>\<close>

definition getBucketTagging :: operation where
  "getBucketTagging self h as =
     forward_callback self h ''getBucketTagging'' ''getBucketTagging''
       [arg as 0] Data"

text \<open>\<^verbatim>\<open>setBucketTagging(bucketName, tags, callback)\<close>\<close>

definition setBucketTagging :: operation where
  "setBucketTagging self h as =
     forward_callback self h ''setBucketTagging'' ''setBucketTagging''
       [arg as 0, arg as 1] Data"

text \<open>\<^verbatim>\<open>removeBucketTagging(bucketName, callback)\<close>\<close>

definition removeBucketTagging :: operation where
  "removeBucketTagging self h as =
     forward_callback self h ''removeBucketTagging'' ''removeBucketTagging''
       [arg as 0] Data"

text \<open>\<^verbatim>\<open>setBucketLifecycle(bucketName, lifecycleConfig)\<close>\<close>

definition setBucketLifecycle :: operation where
  "setBucketLifecycle self h as =
     forward_callback self h ''setBucketLifecycle'' ''putBucketLifecycleConfiguration''
       [arg as 0, arg as 1] Data"

text \<open>\<^verbatim>\<open>getBucketLifecycle(bucketName)\<close>\<close>

definition getBucketLifecycle :: operation where
  "getBucketLifecycle self h as =
     forward_callback self h ''getBucketLifecycle'' ''getBucketLifecycleConfiguration''
       [arg as 0] Data"

text \<open>\<^verbatim>\<open>removeBucketLifecycle(bucketName)\<close>\<close>

definition removeBucketLifecycle :: operation where
  "removeBucketLifecycle self h as =
     forward_callback self h ''removeBucketLifecycle'' ''removeBucketLifecycleConfiguration''
       [arg as 0] Data"

text \<open>\<^verbatim>\<open>setObjectLockConfig(bucketName, lockConfig)\<close>\<close>

definition setObjectLockConfig :: operation where
  "setObjectLockConfig self h as =
     forward_callback self h ''setObjectLockConfig'' ''putObjectLockConfiguration''
       [arg as 0, arg as 1] Data"

text \<open>\<^verbatim>\<open>getObjectLockConfig(bucketName)\<close>\<close>

definition getObjectLockConfig :: operation where
  "getObjectLockConfig self h as =
     forward_callback self h ''getObjectLockConfig'' ''getObjectLockConfiguration''
       [arg as 0] Data"

text \<open>\<^verbatim>\<open>getBucketEncryption(bucketName)\<close>\<close>

definition getBucketEncryption :: operation where
  "getBucketEncryption self h as =
     forward_callback self h ''getBucketEncryption'' ''getBucketEncryption''
       [arg as 0] Data"

text \<open>\<^verbatim>\<open>setBucketEncryption(bucketName, encryptionConfig)\<close>\<close>

definition setBucketEncryption :: operation where
  "setBucketEncryption self h as =
     forward_callback self h ''setBucketEncryption'' ''setBucketEncryption''
       [arg as 0, arg as 1] Data"

text \<open>\<^verbatim>\<open>removeBucketEncryption(bucketName)\<close>\<close>

definition removeBucketEncryption :: operation where
  "removeBucketEncryption self h as =
     forward_callback self h ''removeBucketEncryption'' ''removeBucketEncryption''
       [arg as 0] Data"

text \<open>\<^verbatim>\<open>getObject(bucketName, objectName, getOpts)\<close>\<close>

definition getObject :: operation where
  "getObject self h as =
     forward_stream self h ''getObject'' ''getObject'' [arg as 0, arg as 1, arg as 2]"

text \<open>\<^verbatim>\<open>getPartialObject(bucketName, objectName, offset, length, getOpts)\<close>\<close>

definition getPartialObject :: operation where
  "getPartialObject self h as =
     forward_stream self h ''getPartialObject'' ''getPartialObject''
       [arg as 0, arg as 1, arg as 2, arg as 3, arg as 4]"

text \<open>\<^verbatim>\<open>fGetObject(bucketName, objectName, filePath)\<close>\<close>

definition fGetObject :: operation where
  "fGetObject self h as =
     forward_callback self h ''fGetObject'' ''fGetObject''
       [arg as 0, arg as 1, arg as 2] Data"

text \<open>\<^verbatim>\<open>putObject(bucketName, objectName, stream, size, putOpts)\<close>\<close>

definition putObject :: operation where
  "putObject self h as =
     forward_callback self h ''putObject'' ''putObject''
       [arg as 0, arg as 1, arg as 2, arg as 3, arg as 4] Data"

text \<open>\<^verbatim>\<open>fPutObject(bucketName, objectName, filePath)\<close>\<close>

definition fPutObject :: operation where
  "fPutObject self h as =
     forward_callback self h ''fPutObject'' ''fPutObject''
       [arg as 0, arg as 1, arg as 2] Data"

text \<open>\<^verbatim>\<open>copyObject(bucketName, objectName, destBucket, destObjectName)\<close>\<close>

definition copyObject :: operation where
  "copyObject self h as =
     forward_callback self h ''copyObject'' ''copyObject''
       [arg as 0, arg as 1, arg as 2, arg as 3] Data"

text \<open>\<^verbatim>\<open>statObject(bucketName, objectName)\<close>\<close>

definition statObject :: operation where
  "statObject self h as =
     forward_callback self h ''statObject'' ''statObject'' [arg as 0, arg as 1] Data"

text \<open>\<^verbatim>\<open>removeObject(bucketName, objectName, removeOpts)\<close>\<close>

definition removeObject :: operation where
  "removeObject self h as =
     forward_callback self h ''removeObject'' ''removeObject''
       [arg as 0, arg as 1, arg as 2] (Const (JBool True))"

text \<open>\<^verbatim>\<open>removeObjects(bucketName, objectList)\<close>\<close>

definition removeObjects :: operation where
  "removeObjects self h as =
     forward_callback self h ''removeObjects'' ''removeObjects''
       [arg as 0, arg as 1] Data"

text \<open>\<^verbatim>\<open>removeIncompleteUpload(bucketName, objectName)\<close>\<close>

definition removeIncompleteUpload :: operation where
  "removeIncompleteUpload self h as =
     forward_callback self h ''removeIncompleteUpload'' ''removeIncompleteUpload''
       [arg as 0, arg as 1] Data"

text \<open>\<^verbatim>\<open>putObjectRetention(bucketName, objectName, retentionOpts)\<close>\<close>

definition putObjectRetention :: operation where
  "putObjectRetention self h as =
     forward_callback self h ''putObjectRetention'' ''putObjectRetention''
       [arg as 0, arg as 1, arg as 2] Data"

text \<open>\<^verbatim>\<open>getObjectRetention(bucketName, objectName, getOpts)\<close>\<close>

definition getObjectRetention :: operation where
  "getObjectRetention self h as =
     forward_callback self h ''getObjectRetention'' ''getObjectRetention''
       [arg as 0, arg as 1, arg as 2] Data"

text \<open>\<^verbatim>\<open>setObjectRetention(bucketName, objectName, mode, retainUntilDate)\<close>\<close>

definition setObjectRetention :: operation where
  "setObjectRetention self h as =
     forward_callback self h ''setObjectRetention'' ''setObjectRetention''
       [arg as 0, arg as 1, arg as 2, arg as 3] Nothing"

text \<open>\<^verbatim>\<open>setObjectTagging(bucketName, objectName, tags, putOpts)\<close>\<close>

definition setObjectTagging :: operation where
  "setObjectTagging self h as =
     forward_callback self h ''setObjectTagging'' ''putObjectTagging''
       [arg as 0, arg as 1, arg as 2, arg as 3] Data"

text \<open>\<^verbatim>\<open>removeObjectTagging(bucketName, objectName, removeopts)\<close>\<close>

definition removeObjectTagging :: operation where
  "removeObjectTagging self h as =
     forward_callback self h ''removeObjectTagging'' ''removeObjectTagging''
       [arg as 0, arg as 1, arg as 2] Data"

text \<open>\<^verbatim>\<open>getObjectTagging(bucketName, objectName, getOpts)\<close>\<close>

definition getObjectTagging :: operation where
  "getObjectTagging self h as =
     forward_callback self h ''getObjectTagging'' ''getObjectTagging''
       [arg as 0, arg as 1, arg as 2] Data"

text \<open>\<^verbatim>\<open>getObjectLegalHold(bucketName, objectName, getOpts)\<close>\<close>

definition getObjectLegalHold :: operation where
  "getObjectLegalHold self h as =
     forward_callback self h ''getObjectLegalHold'' ''getObjectLegalHold''
       [arg as 0, arg as 1, arg as 2] Data"

text \<open>\<^verbatim>\<open>setObjectLegalHold(bucketName, objectName, setOpts)\<close>\<close>

definition setObjectLegalHold :: operation where
  "setObjectLegalHold self h as =
     forward_callback self h ''setObjectLegalHold'' ''setObjectLegalHold''
       [arg as 0, arg as 1, arg as 2] Data"

text \<open>\<^verbatim>\<open>composeObject(bucketName, sourceObjectList)\<close>\<close>

definition composeObject :: operation where
  "composeObject self h as =
     forward_callback self h ''composeObject'' ''composeObject''
       [arg as 0, arg as 1] Data"

text \<open>\<^verbatim>\<open>selectObjectContent(bucketName, objectName, selectOpts)\<close>\<close>

definition selectObjectContent :: operation where
  "selectObjectContent self h as =
     forward_stream self h ''selectObjectContent'' ''selectObjectContent''
       [arg as 0, arg as 1, arg as 2]"

text \<open>\<^verbatim>\<open>presignedUrl(method, bucketName, objectName, expiry, reqParams)\<close>\<close>

definition presignedUrl :: operation where
  "presignedUrl self h as =
     forward_callback self h ''presignedUrl'' ''presignedUrl''
       [arg as 0, arg as 1, arg as 2, arg as 3, arg as 4] Data"

text \<open>\<^verbatim>\<open>presignedGetObject(bucketName, objectName, expiry, respHeaders, requestDate)\<close>\<close>

definition presignedGetObject :: operation where
  "presignedGetObject self h as =
     forward_callback self h ''presignedGetObject'' ''presignedGetObject''
       [arg as 0, arg as 1, arg as 2, arg as 3, arg as 4] Data"

text \<open>\<^verbatim>\<open>presignedPutObject(bucketName, objectName, expiry)\<close>\<close>

definition presignedPutObject :: operation where
  "presignedPutObject self h as =
     forward_callback self h ''presignedPutObject'' ''presignedPutObject''
       [arg as 0, arg as 1, arg as 2] Data"

text \<open>\<^verbatim>\<open>getBucketNotification(bucketName)\<close>\<close>

definition getBucketNotification :: operation where
  "getBucketNotification self h as =
     forward_callback self h ''getBucketNotification'' ''getBucketNotification''
       [arg as 0] Data"

text \<open>\<^verbatim>\<open>setBucketNotification(bucketName, notificationConfig)\<close>\<close>

definition setBucketNotification :: operation where
  "setBucketNotification self h as =
     forward_callback self h ''setBucketNotification'' ''setBucketNotification''
       [arg as 0, arg as 1] Data"

text \<open>\<^verbatim>\<open>listenBucketNotification(bucketName)\<close>\<close>

definition listenBucketNotification :: operation where
  "listenBucketNotification self h as =
     forward_stream self h ''listenBucketNotification'' ''listenBucketNotification''
       [arg as 0]"

text \<open>\<^verbatim>\<open>getBucketPolicy(bucketName)\<close>\<close>

definition getBucketPolicy :: operation where
  "getBucketPolicy self h as =
     forward_callback self h ''getBucketPolicy'' ''getBucketPolicy'' [arg as 0] Data"

text \<open>
  \<^verbatim>\<open>presignedPostPolicy(bucketName, objectName, objectNamePrefix, expiresInSeconds)\<close>
  first builds a policy object with \<^verbatim>\<open>new self.client.Policy()\<close> and four setters,
  outside the promise: an exception there leaves the method. That object is then
  shadowed by the literal the executor builds and passes to the client.
\<close>

fun first_thrown :: "jsval completion list \<Rightarrow> jsval option" where
  "first_thrown [] = None"
| "first_thrown (Normal v # cs) = first_thrown cs"
| "first_thrown (Thrown e # cs) = Some e"

definition build_policy :: "MinioDB \<Rightarrow> host \<Rightarrow> jsval list \<Rightarrow> jsval option" where
  "build_policy self h as =
     (case client self of
        JRef r \<Rightarrow>
          first_thrown
            [policy_call h r ''Policy'' [],
             policy_call h r ''setExpires'' [new_Date h 0 (arg as 3)],
             policy_call h r ''setBucketName'' [arg as 0],
             policy_call h r ''setKey'' [arg as 1],
             policy_call h r ''setKeyStartsWith'' [arg as 2]]
      | _ \<Rightarrow> Some TypeError)"

definition presignedPostPolicy :: operation where
  "presignedPostPolicy self h as =
     (case build_policy self h as of
        Some e \<Rightarrow>
          \<lparr> returned = Thrown e, calls = [], delivered = [], raised = [],
            logged = dbg self ''presignedPostPolicy'' \<rparr>
      | None \<Rightarrow>
          forward_callback self h ''presignedPostPolicy'' ''presignedPostPolicy''
            [JObj [(''expiration'', new_Date h 1 (arg as 3)),
                   (''conditions'',
                      JArr [JArr [JStr ''starts-with'', JStr ''$key'', arg as 1],
                            JObj [(''bucket'', arg as 0)],
                            JObj [(''acl'', JStr ''private'')]])]]
            Data)"

text \<open>
  \<^verbatim>\<open>removeAllBucketNotification(bucketName)\<close> calls the client's
  \<^verbatim>\<open>setBucketNotification\<close> with three empty configurations.
\<close>

definition removeAllBucketNotification :: operation where
  "removeAllBucketNotification self h as =
     forward_callback self h ''removeAllBucketNotification'' ''setBucketNotification''
       [arg as 0,
        JObj [(''QueueConfiguration'', JObj []), (''TopicConfiguration'', JObj []),
              (''LambdaFunctionConfiguration'', JObj [])]]
       Nothing"

text \<open>
  \<^verbatim>\<open>setBucketPolicy(bucketName, bucketPolicy)\<close> passes
  \<^verbatim>\<open>JSON.stringify(bucketPolicy)\<close>. The method reference \<^verbatim>\<open>self.client.setBucketPolicy\<close>
  is evaluated before the arguments, and all of it inside the executor: a missing client
  or an exception of the conversion rejects the promise before any client call.
\<close>

definition setBucketPolicy :: operation where
  "setBucketPolicy self h as =
     (case client self of
        JRef r \<Rightarrow>
          (case JSON_stringify h (arg as 1) of
             Thrown e \<Rightarrow>
               \<lparr> returned = Normal (PromiseOf (Rejected e)), calls = [], delivered = [],
                 raised = [],
                 logged = dbg self ''setBucketPolicy'' \<rparr>
           | Normal policy_text \<Rightarrow>
               forward_callback self h ''setBucketPolicy'' ''setBucketPolicy''
                 [arg as 0, policy_text] Data)
      | _ \<Rightarrow>
          \<lparr> returned = Normal (PromiseOf (Rejected TypeError)), calls = [], delivered = [],
            raised = [],
            logged = dbg self ''setBucketPolicy'' \<rparr>)"

text \<open>
  The storage operations \<^verbatim>\<open>MinioDB.prototype\<close> defines, by name
  (\<^verbatim>\<open>getObjectLockConfig\<close> is assigned twice, with the same body).
\<close>

definition MinioDB_prototype :: "(string \<times> operation) list" where
  "MinioDB_prototype =
   [(''makeBucket'', makeBucket), (''listBuckets'', listBuckets),
     (''bucketExists'', bucketExists), (''removeBucket'', removeBucket),
     (''listObjects'', listObjects), (''listObjectsV2'', listObjectsV2),
     (''listObjectsV2WithMetadata'', listObjectsV2WithMetadata),
     (''listIncompleteUploads'', listIncompleteUploads),
     (''getBucketVersioning'', getBucketVersioning),
     (''setBucketVersioning'', setBucketVersioning),
     (''setBucketReplication'', setBucketReplication),
     (''getBucketReplication'', getBucketReplication),
     (''removeBucketReplication'', removeBucketReplication),
     (''getBucketTagging'', getBucketTagging), (''setBucketTagging'', setBucketTagging),
     (''removeBucketTagging'', removeBucketTagging),
     (''setBucketLifecycle'', setBucketLifecycle),
     (''getBucketLifecycle'', getBucketLifecycle),
     (''removeBucketLifecycle'', removeBucketLifecycle),
     (''setObjectLockConfig'', setObjectLockConfig),
     (''getObjectLockConfig'', getObjectLockConfig),
     (''getBucketEncryption'', getBucketEncryption),
     (''setBucketEncryption'', setBucketEncryption),
     (''removeBucketEncryption'', removeBucketEncryption), (''getObject'', getObject),
     (''getPartialObject'', getPartialObject), (''fGetObject'', fGetObject),
     (''putObject'', putObject), (''fPutObject'', fPutObject),
     (''copyObject'', copyObject), (''statObject'', statObject),
     (''removeObject'', removeObject), (''removeObjects'', removeObjects),
     (''removeIncompleteUpload'', removeIncompleteUpload),
     (''putObjectRetention'', putObjectRetention),
     (''getObjectRetention'', getObjectRetention),
     (''setObjectRetention'', setObjectRetention),
     (''setObjectTagging'', setObjectTagging),
     (''removeObjectTagging'', removeObjectTagging),
     (''getObjectTagging'', getObjectTagging),
     (''getObjectLegalHold'', getObjectLegalHold),
     (''setObjectLegalHold'', setObjectLegalHold), (''composeObject'', composeObject),
     (''selectObjectContent'', selectObjectContent), (''presignedUrl'', presignedUrl),
     (''presignedGetObject'', presignedGetObject),
     (''presignedPutObject'', presignedPutObject),
     (''presignedPostPolicy'', presignedPostPolicy),
     (''getBucketNotification'', getBucketNotification),
     (''setBucketNotification'', setBucketNotification),
     (''removeAllBucketNotification'', removeAllBucketNotification),
     (''listenBucketNotification'', listenBucketNotification),
     (''getBucketPolicy'', getBucketPolicy), (''setBucketPolicy'', setBucketPolicy)]"

section \<open>Publishing the operation table\<close>

text \<open>
  The fifty assignments
  \<^verbatim>\<open>this.DataAccessObject.m = MinioDB.prototype.m.bind(self)\<close> of
  \<^verbatim>\<open>setupDataAccessObject\<close>, in the order of the source (\<^verbatim>\<open>bucketExists\<close> is
  assigned twice). In each of them the property and the prototype method have the
  same name \<open>m\<close>.
\<close>

definition dao_assignments :: "string list" where
  "dao_assignments =
    [''makeBucket'', ''bucketExists'', ''removeBucket'', ''listBuckets'', ''bucketExists'',
      ''listObjects'', ''listObjectsV2'', ''listIncompleteUploads'',
      ''getBucketVersioning'', ''setBucketVersioning'', ''getBucketTagging'',
      ''setBucketTagging'', ''removeBucketTagging'', ''setBucketLifecycle'',
      ''getBucketLifecycle'', ''removeBucketLifecycle'', ''setBucketEncryption'',
      ''getBucketEncryption'', ''removeBucketEncryption'', ''setBucketReplication'',
      ''getBucketReplication'', ''removeBucketReplication'', ''setObjectLockConfig'',
      ''getObjectLockConfig'', ''setBucketPolicy'', ''getBucketPolicy'',
      ''setBucketNotification'', ''getBucketNotification'', ''getObject'',
      ''getPartialObject'', ''fGetObject'', ''putObject'', ''fPutObject'', ''copyObject'',
      ''statObject'', ''removeObject'', ''removeObjects'', ''removeIncompleteUpload'',
      ''putObjectRetention'', ''getObjectRetention'', ''getObjectLegalHold'',
      ''setObjectTagging'', ''getObjectTagging'', ''removeObjectTagging'',
      ''composeObject'', ''selectObjectContent'', ''presignedUrl'', ''presignedGetObject'',
      ''presignedPutObject'', ''presignedPostPolicy'']"

text \<open>
  \<^verbatim>\<open>setupDataAccessObject()\<close>: the assignments, then
  \<^verbatim>\<open>this.dataSource.DataAccessObject = this.DataAccessObject\<close> (which throws on a
  connector without data source), then \<^verbatim>\<open>this.dataSource.mixin(...)\<close> for every
  model. It returns the table.
\<close>

definition setupDataAccessObject ::
    "MinioDB \<Rightarrow> host \<Rightarrow> MinioDB \<times> (string \<times> bound) list completion \<times> diag list" where
  "setupDataAccessObject self h =
     (let dao = foldl (\<lambda>t m. set_prop t m (Bound m (oid self))) (DataAccessObject self)
                  dao_assignments
      in case dataSource self of
           None \<Rightarrow> (self\<lparr>DataAccessObject := dao\<rparr>, Thrown TypeError, [])
         | Some ds \<Rightarrow>
             (self\<lparr>DataAccessObject := dao,
                   dataSource := Some (ds\<lparr>ds_DataAccessObject := Some dao,
                                          mixins := mixins ds @ map snd (models self)\<rparr>)\<rparr>,
              Normal dao,
              if truthy (debug_enabled h)
              then map (\<lambda>m. Debug ''Mixing methods into'') (models self) else []))"

section \<open>Connecting\<close>

text \<open>
  A function handed to \<^verbatim>\<open>process.nextTick\<close>:
  \<^verbatim>\<open>function() { callback(); }\<close> (in \<^verbatim>\<open>initialize\<close>) or
  \<^verbatim>\<open>function() { if (callback) callback(null, self.client); }\<close> (in \<^verbatim>\<open>connect\<close>).
\<close>

datatype tick = CallCallback jsval | DeliverClient jsval

text \<open>
  Running a scheduled function against the connector as it is then: the callback
  invocations (callee, arguments), or the exception of calling what is not a function.
\<close>

fun run_tick :: "MinioDB \<Rightarrow> tick \<Rightarrow> (jsval \<times> jsval list) list completion" where
  "run_tick self (CallCallback callback) =
     (if callable callback then Normal [(callback, [])] else Thrown TypeError)"
| "run_tick self (DeliverClient callback) =
     (if truthy callback
      then (if callable callback then Normal [(callback, [JNull, client self])]
            else Thrown TypeError)
      else Normal [])"

text \<open>
  The listener \<^verbatim>\<open>connect\<close> registers with \<^verbatim>\<open>once('connected', ...)\<close> schedules the
  delivery of the client to its callback; the framework emits the event.
\<close>

definition emit_connected :: "DataSource \<Rightarrow> tick list" where
  "emit_connected ds = map DeliverClient (once_connected ds)"

text \<open>
  What \<^verbatim>\<open>connect\<close> returns: \<^verbatim>\<open>undefined\<close>, or (from
  \<^verbatim>\<open>return callback(null, self.client)\<close>) whatever the callback returns.
\<close>

datatype connect_ret = Ret_undefined | Ret_of_callback

text \<open>
  The effects of \<^verbatim>\<open>connect\<close> and \<^verbatim>\<open>initialize\<close>: the functions scheduled with
  \<^verbatim>\<open>process.nextTick\<close>, the callbacks invoked on the spot, the argument of every
  \<^verbatim>\<open>new minio.Client(...)\<close>, the callback argument of every call of \<^verbatim>\<open>connect\<close>,
  the diagnostics, the connector afterwards and the value returned or the exception.
\<close>

record run =
  ticks :: "tick list"
  invoked :: "(jsval \<times> jsval list) list"
  constructed :: "jsobj list"
  connect_calls :: "jsval list"
  trace :: "diag list"
  after :: MinioDB
  outcome :: "connect_ret completion"

definition validOptionNames :: "string list" where
  "validOptionNames = [''bucketName'', ''endPoint'', ''port'', ''useSSL'', ''accessKey'',
     ''secretKey'', ''region'', ''transport'', ''sessionToken'', ''partSize'', ''pathStyle'',
     ''transportAgent'']"

text \<open>
  The loop
  \<^verbatim>\<open>lbOptions.forEach(function(option) { if (validOptionNames.indexOf(option) > -1) { validOptions[option] = self.settings[option]; } })\<close>
  over \<^verbatim>\<open>Object.keys(self.settings)\<close>, started with \<^verbatim>\<open>validOptions = {}\<close>.
\<close>

definition validOptions :: "jsobj \<Rightarrow> jsobj" where
  "validOptions settings0 =
     foldl (\<lambda>acc option.
              if option \<in> set validOptionNames
              then set_prop acc option (get_prop settings0 option) else acc)
       [] (Object_keys settings0)"

text \<open>
  \<^verbatim>\<open>connect(callback)\<close>. With a client it schedules the delivery; while the data
  source is connecting it registers a listener; otherwise it filters the settings,
  sets \<^verbatim>\<open>self.connector\<close>, constructs the client, publishes the table and calls the
  callback. \<^verbatim>\<open>onError\<close> is declared and never called, and no statement catches an
  exception: one thrown by the constructor leaves \<^verbatim>\<open>connect\<close> before
  \<^verbatim>\<open>self.client\<close> is assigned. The last statement calls \<^verbatim>\<open>callback\<close> without
  testing it.
\<close>

definition connect :: "MinioDB \<Rightarrow> host \<Rightarrow> jsval \<Rightarrow> run" where
  "connect self h callback =
     (if truthy (client self) then
        \<lparr> ticks = [DeliverClient callback], invoked = [], constructed = [],
          connect_calls = [callback], trace = [], after = self,
          outcome = Normal Ret_undefined \<rparr>
      else case dataSource self of
        None \<Rightarrow>
          \<lparr> ticks = [], invoked = [], constructed = [], connect_calls = [callback],
            trace = [], after = self, outcome = Thrown TypeError \<rparr>
      | Some ds \<Rightarrow>
          if truthy (connecting ds) then
            \<lparr> ticks = [], invoked = [], constructed = [], connect_calls = [callback],
              trace = [],
              after = self\<lparr>dataSource :=
                        Some (ds\<lparr>once_connected := once_connected ds @ [callback]\<rparr>)\<rparr>,
              outcome = Normal Ret_undefined \<rparr>
          else
            (case new_Client h (validOptions (settings self)) of
               Thrown e \<Rightarrow>
                 \<lparr> ticks = [], invoked = [],
                   constructed = [validOptions (settings self)],
                   connect_calls = [callback], trace = [Debug ''Valid options''],
                   after = self\<lparr>connector := Some (oid self)\<rparr>,
                   outcome = Thrown e \<rparr>
             | Normal r \<Rightarrow>
                 (case setupDataAccessObject
                         (self\<lparr>connector := Some (oid self), client := JRef r\<rparr>) h of
                    (self', published, mixing) \<Rightarrow>
                      \<lparr> ticks = [],
                        invoked = (case published of
                                     Thrown e \<Rightarrow> []
                                   | Normal dao \<Rightarrow>
                                       if callable callback
                                       then [(callback, [JNull, JRef r])] else []),
                        constructed = [validOptions (settings self)],
                        connect_calls = [callback],
                        trace = Debug ''Valid options'' # mixing,
                        after = self',
                        outcome = (case published of
                                     Thrown e \<Rightarrow> Thrown e
                                   | Normal dao \<Rightarrow>
                                       if callable callback then Normal Ret_of_callback
                                       else Thrown TypeError) \<rparr>)))"

section \<open>Initialising a data source\<close>


section \<open>Sample inputs\<close>

text \<open>
  Concrete inputs for the examples below. The settings are those of the test suite's
  local configuration together with the \<^verbatim>\<open>connector\<close> key its \<^verbatim>\<open>createDataSource\<close>
  adds. The sample host constructs the client handle 7; every method of that client
  returns the stream handle 50 and completes with the data \<^verbatim>\<open>'data'\<close>; no
  function or host object of it has a \<^verbatim>\<open>then\<close>. Its \<^verbatim>\<open>JSON.stringify\<close> is
  given at the empty object, the one policy the examples use.
\<close>

definition sample_settings :: jsobj where
  "sample_settings =
     [(''connector'', JStr ''minio''), (''endPoint'', JStr ''localhost''),
      (''port'', JNum 9002), (''useSSL'', JBool False), (''accessKey'', JStr ''K''),
      (''secretKey'', JStr ''S'')]"

definition sample_host :: host where
  "sample_host =
     \<lparr> minio = JRef 0,
       debug_enabled = JBool False,
       new_Client = (\<lambda>opts. Normal 7),
       client_method = (\<lambda>r c. Returns (JRef 50) [(JNull, JStr ''data'')]),
       policy_call = (\<lambda>r m as. Normal JUndefined),
       JSON_stringify = (\<lambda>v. if v = JObj [] then Normal (JStr ''{}'') else Normal JUndefined),
       new_Date = (\<lambda>k x. JRef 2),
       has_then = (\<lambda>x. False) \<rparr>"

text \<open>A host whose client fails every call with the error object 60.\<close>

definition failing_host :: host where
  "failing_host =
     sample_host \<lparr> client_method := (\<lambda>r c. if call_cb c then Returns JUndefined [(JRef 60, JUndefined)]
                                   else Throws (JRef 60)) \<rparr>"

text \<open>A host whose client completes every call with one and the same thenable.\<close>

definition thenable_host :: host where
  "thenable_host =
     sample_host \<lparr> client_method :=
       (\<lambda>r c. Returns (JRef 50) [(JNull, JObj [(''then'', JFn 8)])]) \<rparr>"

text \<open>A host whose client constructor throws the error object 70.\<close>

definition broken_host :: host where
  "broken_host = sample_host \<lparr> new_Client := (\<lambda>opts. Thrown (JRef 70)) \<rparr>"

definition sample_dataSource :: "jsobj \<Rightarrow> DataSource" where
  "sample_dataSource s =
     \<lparr> ds_settings = Some s, connecting = JUndefined, ds_DataAccessObject = None,
       once_connected = [], mixins = [] \<rparr>"

text \<open>The connector \<^verbatim>\<open>initialize\<close> creates for the sample settings, before \<^verbatim>\<open>connect\<close>.\<close>

definition sample_connector :: MinioDB where
  "sample_connector =
     (fst (new_MinioDB sample_host 4 (Some sample_settings)))
       \<lparr> dataSource := Some (sample_dataSource sample_settings) \<rparr>"

text \<open>The same connector after a successful \<^verbatim>\<open>connect\<close>.\<close>

definition ready_connector :: MinioDB where
  "ready_connector = after (connect sample_connector sample_host (JFn 3))"


section \<open>What the client reports, and what an operation makes of it\<close>

text \<open>
  The client reports the failure \<open>e\<close> of the call \<open>c\<close> when it throws \<open>e\<close>, or
  when it was given a completion callback and first invokes it with the truthy error
  \<open>e\<close>.
\<close>

definition reports_failure :: "reply \<Rightarrow> call \<Rightarrow> jsval \<Rightarrow> bool" where
  "reports_failure rp c e =
     (case rp of
        Throws x \<Rightarrow> x = e
      | Returns v invs \<Rightarrow>
          call_cb c \<and> (case invs of [] \<Rightarrow> False | (err, d) # later \<Rightarrow> truthy err \<and> err = e))"

text \<open>
  It reports the success of the call with the value \<open>v\<close> when it first invokes the
  completion callback it was given with a falsy error and the data \<open>v\<close>, or, given no
  callback, returns \<open>v\<close>.
\<close>

definition reports_success :: "reply \<Rightarrow> call \<Rightarrow> jsval \<Rightarrow> bool" where
  "reports_success rp c v =
     (case rp of
        Throws x \<Rightarrow> False
      | Returns s invs \<Rightarrow>
          if call_cb c
          then (case invs of [] \<Rightarrow> False | (err, d) # later \<Rightarrow> \<not> truthy err \<and> d = v)
          else s = v)"

text \<open>
  Three ways an operation's result can follow the client's report, for a connector
  with a client handle: the promise it returns is rejected with the reported error, is
  resolved with the reported value (fulfilled with it, or following it when it is a
  thenable), or is fulfilled with \<^verbatim>\<open>undefined\<close>.
\<close>

definition rejects_on_failure :: "MinioDB \<Rightarrow> host \<Rightarrow> op_result \<Rightarrow> bool" where
  "rejects_on_failure self h res =
     (\<forall>r c e. client self = JRef r \<and> c \<in> set (calls res)
              \<and> reports_failure (client_method h r c) c e
          \<longrightarrow> returned res = Normal (PromiseOf (Rejected e)))"

definition resolves_with_value :: "MinioDB \<Rightarrow> host \<Rightarrow> op_result \<Rightarrow> bool" where
  "resolves_with_value self h res =
     (\<forall>r c v. client self = JRef r \<and> c \<in> set (calls res)
              \<and> reports_success (client_method h r c) c v
          \<longrightarrow> returned res
                = Normal (PromiseOf (if thenable h v then Follows v else Fulfilled v)))"

definition resolves_with_undefined :: "MinioDB \<Rightarrow> host \<Rightarrow> op_result \<Rightarrow> bool" where
  "resolves_with_undefined self h res =
     (\<forall>r c v. client self = JRef r \<and> c \<in> set (calls res)
              \<and> reports_success (client_method h r c) c v
          \<longrightarrow> returned res = Normal (PromiseOf (Fulfilled JUndefined)))"

text \<open>
  An operation keeps to the promise contract when what it returns is a promise, its
  own code invokes no callback of its caller and its completion callback throws nothing.
\<close>

definition returns_promise :: "op_result \<Rightarrow> bool" where
  "returns_promise res =
     ((\<exists>p. returned res = Normal (PromiseOf p)) \<and> delivered res = [] \<and> raised res = [])"

text \<open>
  The operations that hand their own parameters to the client method, one row each: the
  name under which the prototype holds the operation, the operation, the client method
  it calls, the number of its parameters it passes (the first ones, in their order),
  and whether it passes a completion callback after them (the operations that return
  the client's stream pass none). The prototype's other seven operations build at
  least one argument themselves.
\<close>

definition forwarding ::
    "(string \<times> operation \<times> string \<times> nat \<times> bool) list" where
  "forwarding =
     [(''listBuckets'', listBuckets, ''listBuckets'', 0, True),
      (''bucketExists'', bucketExists, ''bucketExists'', 1, True),
      (''removeBucket'', removeBucket, ''removeBucket'', 1, True),
      (''listObjects'', listObjects, ''listObjects'', 4, False),
      (''listObjectsV2WithMetadata'', listObjectsV2WithMetadata, ''listObjectsV2'', 4, False),
      (''setBucketVersioning'', setBucketVersioning, ''setBucketVersioning'', 2, True),
      (''setBucketReplication'', setBucketReplication, ''setBucketReplication'', 2, True),
      (''getBucketReplication'', getBucketReplication, ''getBucketReplication'', 1, True),
      (''removeBucketReplication'', removeBucketReplication, ''removeBucketReplication'', 1, True),
      (''getBucketTagging'', getBucketTagging, ''getBucketTagging'', 1, True),
      (''setBucketTagging'', setBucketTagging, ''setBucketTagging'', 2, True),
      (''removeBucketTagging'', removeBucketTagging, ''removeBucketTagging'', 1, True),
      (''setBucketLifecycle'', setBucketLifecycle, ''putBucketLifecycleConfiguration'', 2, True),
      (''getBucketLifecycle'', getBucketLifecycle, ''getBucketLifecycleConfiguration'', 1, True),
      (''removeBucketLifecycle'', removeBucketLifecycle, ''removeBucketLifecycleConfiguration'', 1, True),
      (''setObjectLockConfig'', setObjectLockConfig, ''putObjectLockConfiguration'', 2, True),
      (''getObjectLockConfig'', getObjectLockConfig, ''getObjectLockConfiguration'', 1, True),
      (''getBucketEncryption'', getBucketEncryption, ''getBucketEncryption'', 1, True),
      (''setBucketEncryption'', setBucketEncryption, ''setBucketEncryption'', 2, True),
      (''removeBucketEncryption'', removeBucketEncryption, ''removeBucketEncryption'', 1, True),
      (''getObject'', getObject, ''getObject'', 3, False),
      (''getPartialObject'', getPartialObject, ''getPartialObject'', 5, False),
      (''fGetObject'', fGetObject, ''fGetObject'', 3, True),
      (''putObject'', putObject, ''putObject'', 5, True),
      (''fPutObject'', fPutObject, ''fPutObject'', 3, True),
      (''copyObject'', copyObject, ''copyObject'', 4, True),
      (''statObject'', statObject, ''statObject'', 2, True),
      (''removeObject'', removeObject, ''removeObject'', 3, True),
      (''removeObjects'', removeObjects, ''removeObjects'', 2, True),
      (''removeIncompleteUpload'', removeIncompleteUpload, ''removeIncompleteUpload'', 2, True),
      (''putObjectRetention'', putObjectRetention, ''putObjectRetention'', 3, True),
      (''getObjectRetention'', getObjectRetention, ''getObjectRetention'', 3, True),
      (''setObjectRetention'', setObjectRetention, ''setObjectRetention'', 4, True),
      (''setObjectTagging'', setObjectTagging, ''putObjectTagging'', 4, True),
      (''removeObjectTagging'', removeObjectTagging, ''removeObjectTagging'', 3, True),
      (''getObjectTagging'', getObjectTagging, ''getObjectTagging'', 3, True),
      (''getObjectLegalHold'', getObjectLegalHold, ''getObjectLegalHold'', 3, True),
      (''setObjectLegalHold'', setObjectLegalHold, ''setObjectLegalHold'', 3, True),
      (''composeObject'', composeObject, ''composeObject'', 2, True),
      (''selectObjectContent'', selectObjectContent, ''selectObjectContent'', 3, False),
      (''presignedUrl'', presignedUrl, ''presignedUrl'', 5, True),
      (''presignedGetObject'', presignedGetObject, ''presignedGetObject'', 5, True),
      (''presignedPutObject'', presignedPutObject, ''presignedPutObject'', 3, True),
      (''getBucketNotification'', getBucketNotification, ''getBucketNotification'', 1, True),
      (''setBucketNotification'', setBucketNotification, ''setBucketNotification'', 2, True),
      (''listenBucketNotification'', listenBucketNotification, ''listenBucketNotification'', 1, False),
      (''getBucketPolicy'', getBucketPolicy, ''getBucketPolicy'', 1, True)]"

text \<open>
  On a connector that has its client handle, the operation makes exactly one client
  call: the method \<open>m\<close> with the caller's first \<open>k\<close> arguments, \<^verbatim>\<open>undefined\<close> where the
  caller passed none, and a completion callback when \<open>cb\<close> holds.
\<close>

definition forwards :: "string \<Rightarrow> nat \<Rightarrow> bool \<Rightarrow> operation \<Rightarrow> bool" where
  "forwards m k cb f =
     (\<forall>self h as r. client self = JRef r \<longrightarrow>
        calls (f self h as) = [ClientCall m (map (arg as) [0..<k]) cb])"

section \<open>Properties of the configuration filter and of the connection\<close>

lemma map_of_set_prop: "map_of (set_prop kvs k v) = (map_of kvs)(k \<mapsto> v)"
  by (induction kvs k v rule: set_prop.induct) (auto simp: fun_eq_iff)

lemma map_of_filter_loop:
  "map_of (foldl (\<lambda>acc option. if option \<in> S then set_prop acc option (g option) else acc)
             acc0 ks) k
     = (if k \<in> set ks \<and> k \<in> S then Some (g k) else map_of acc0 k)"
  by (induction ks arbitrary: acc0) (auto simp: map_of_set_prop)

lemma get_prop_key: "k \<in> fst ` set obj \<Longrightarrow> Some (get_prop obj k) = map_of obj k"
  by (auto simp: get_prop_def map_of_eq_None_iff split: option.splits)

lemma map_of_validOptions:
  "map_of (validOptions s) k = (if k \<in> set validOptionNames then map_of s k else None)"
proof (cases "k \<in> fst ` set s")
  case True
  then show ?thesis
    unfolding validOptions_def Object_keys_def
    by (simp add: map_of_filter_loop get_prop_key)
next
  case False
  then have "map_of s k = None" by (simp add: map_of_eq_None_iff)
  with False show ?thesis
    unfolding validOptions_def Object_keys_def
    by (simp add: map_of_filter_loop)
qed

lemma sample_validOptions:
  "validOptions sample_settings =
     [(''endPoint'', JStr ''localhost''), (''port'', JNum 9002), (''useSSL'', JBool False),
      (''accessKey'', JStr ''K''), (''secretKey'', JStr ''S'')]"
  by (simp add: validOptions_def sample_settings_def Object_keys_def validOptionNames_def
      get_prop_def)

lemma sample_connector_fields:
  "client sample_connector = JUndefined"
  "dataSource sample_connector = Some (sample_dataSource sample_settings)"
  "settings sample_connector = sample_settings"
  "oid sample_connector = 4"
  "DataAccessObject sample_connector = []"
  by (simp_all add: sample_connector_def new_MinioDB_def Let_def)

lemma ready_connector_client: "client ready_connector = JRef 7"
  by (simp add: ready_connector_def connect_def sample_connector_fields
      sample_dataSource_def sample_host_def setupDataAccessObject_def Let_def)

text \<open>
  C5. In the Absent state (no client, data source not connecting) \<^verbatim>\<open>connect\<close>
  constructs the client once, from the object \<open>validOptions (settings self)\<close>, and
  that object has exactly the recognised keys of the settings, each with the value the
  settings give it: every other key is absent from it. The handle the constructor
  returns for that object is the one stored in the client field and handed to a
  callback that is a function.
\<close>

theorem connect_filters_options:
  assumes "\<not> truthy (client self)" and "dataSource self = Some ds"
    and "\<not> truthy (connecting ds)"
  shows "constructed (connect self h callback) = [validOptions (settings self)]
    \<and> (\<forall>k. map_of (validOptions (settings self)) k =
          (if k \<in> {''bucketName'', ''endPoint'', ''port'', ''useSSL'', ''accessKey'',
                    ''secretKey'', ''region'', ''transport'', ''sessionToken'', ''partSize'',
                    ''pathStyle'', ''transportAgent''}
           then map_of (settings self) k else None))
    \<and> (\<forall>r. new_Client h (validOptions (settings self)) = Normal r \<longrightarrow>
          client (after (connect self h callback)) = JRef r
        \<and> (callable callback \<longrightarrow>
              invoked (connect self h callback) = [(callback, [JNull, JRef r])]))"
proof -
  have "constructed (connect self h callback) = [validOptions (settings self)]"
    using assms by (simp add: connect_def split: completion.splits prod.splits)
  moreover have "set validOptionNames =
      {''bucketName'', ''endPoint'', ''port'', ''useSSL'', ''accessKey'',
       ''secretKey'', ''region'', ''transport'', ''sessionToken'', ''partSize'',
       ''pathStyle'', ''transportAgent''}"
    by (simp add: validOptionNames_def)
  then have "\<forall>k. map_of (validOptions (settings self)) k =
          (if k \<in> {''bucketName'', ''endPoint'', ''port'', ''useSSL'', ''accessKey'',
                    ''secretKey'', ''region'', ''transport'', ''sessionToken'', ''partSize'',
                    ''pathStyle'', ''transportAgent''}
           then map_of (settings self) k else None)"
    using map_of_validOptions by metis
  moreover have "\<forall>r. new_Client h (validOptions (settings self)) = Normal r \<longrightarrow>
          client (after (connect self h callback)) = JRef r
        \<and> (callable callback \<longrightarrow>
              invoked (connect self h callback) = [(callback, [JNull, JRef r])])"
    using assms by (simp add: connect_def setupDataAccessObject_def Let_def)
  ultimately show ?thesis by (intro conjI)
qed

theorem connect_filters_options_witness:
  "\<not> truthy (client sample_connector)
   \<and> dataSource sample_connector = Some (sample_dataSource sample_settings)
   \<and> \<not> truthy (connecting (sample_dataSource sample_settings))
   \<and> constructed (connect sample_connector sample_host (JFn 3)) =
       [[(''endPoint'', JStr ''localhost''), (''port'', JNum 9002), (''useSSL'', JBool False),
         (''accessKey'', JStr ''K''), (''secretKey'', JStr ''S'')]]
   \<and> map_of (validOptions (settings sample_connector)) ''port'' = Some (JNum 9002)
   \<and> map_of (validOptions (settings sample_connector)) ''connector'' = None
   \<and> new_Client sample_host (validOptions (settings sample_connector)) = Normal 7
   \<and> client (after (connect sample_connector sample_host (JFn 3))) = JRef 7
   \<and> invoked (connect sample_connector sample_host (JFn 3)) = [(JFn 3, [JNull, JRef 7])]"
proof -
  have a: "\<not> truthy (client sample_connector)"
    by (simp add: sample_connector_fields)
  have b: "dataSource sample_connector = Some (sample_dataSource sample_settings)"
    by (simp add: sample_connector_fields)
  have c: "\<not> truthy (connecting (sample_dataSource sample_settings))"
    by (simp add: sample_dataSource_def)
  note t = connect_filters_options [OF a b c, of sample_host "JFn 3"]
  note built = t [THEN conjunct1]
  note filtered = t [THEN conjunct2, THEN conjunct1]
  note stored = t [THEN conjunct2, THEN conjunct2]
  have d: "new_Client sample_host (validOptions (settings sample_connector)) = Normal 7"
    by (simp add: sample_host_def)
  from stored d have "client (after (connect sample_connector sample_host (JFn 3))) = JRef 7
      \<and> invoked (connect sample_connector sample_host (JFn 3)) = [(JFn 3, [JNull, JRef 7])]"
    by simp
  moreover from filtered have
    "map_of (validOptions (settings sample_connector)) ''port''
       = map_of (settings sample_connector) ''port''"
    "map_of (validOptions (settings sample_connector)) ''connector'' = None"
    by simp_all
  moreover have "map_of sample_settings ''port'' = Some (JNum 9002)"
    by (simp add: sample_settings_def)
  ultimately show ?thesis
    using a b c d built
    by (simp add: sample_connector_fields sample_validOptions)
qed

text \<open>
  C3. Once the client field is set, \<^verbatim>\<open>connect\<close> leaves the connector as it is,
  constructs no client, invokes nothing on the spot and schedules one function; run
  against the connector, that function hands the existing handle to the callback.
\<close>

theorem connect_ready_idempotent:
  assumes "truthy (client self)"
  shows "after (connect self h callback) = self
       \<and> constructed (connect self h callback) = []
       \<and> invoked (connect self h callback) = []
       \<and> ticks (connect self h callback) = [DeliverClient callback]
       \<and> outcome (connect self h callback) = Normal Ret_undefined
       \<and> (callable callback \<longrightarrow>
            run_tick (after (connect self h callback)) (DeliverClient callback)
              = Normal [(callback, [JNull, client self])])"
  using assms by (cases callback) (simp_all add: connect_def)

theorem connect_ready_idempotent_witness:
  "truthy (client ready_connector)
   \<and> after (connect ready_connector sample_host (JFn 2)) = ready_connector
   \<and> constructed (connect ready_connector sample_host (JFn 2)) = []
   \<and> ticks (connect ready_connector sample_host (JFn 2)) = [DeliverClient (JFn 2)]
   \<and> run_tick (after (connect ready_connector sample_host (JFn 2))) (DeliverClient (JFn 2))
       = Normal [(JFn 2, [JNull, JRef 7])]"
proof -
  have a: "truthy (client ready_connector)"
    by (simp add: ready_connector_client)
  show ?thesis
    using a connect_ready_idempotent [OF a, of sample_host "JFn 2"]
    by (simp add: ready_connector_client)
qed

section \<open>Properties of single operations\<close>

text \<open>
  C6. With a client handle, \<^verbatim>\<open>makeBucket\<close> makes one client call: with the bucket
  name and a callback when the second argument is \<^verbatim>\<open>undefined\<close> (or left out), with
  the bucket name, the region and a callback otherwise. Nothing else decides it.
\<close>

theorem makeBucket_variant:
  assumes "client self = JRef r"
  shows "(arg as 1 = JUndefined \<longrightarrow>
            calls (makeBucket self h as) = [ClientCall ''makeBucket'' [arg as 0] True])
       \<and> (arg as 1 \<noteq> JUndefined \<longrightarrow>
            calls (makeBucket self h as)
              = [ClientCall ''makeBucket'' [arg as 0, arg as 1] True])"
  using assms by (simp add: makeBucket_def forward_callback_def made_def)

theorem makeBucket_variant_witness:
  "client ready_connector = JRef 7
   \<and> calls (makeBucket ready_connector sample_host [JStr ''test''])
       = [ClientCall ''makeBucket'' [JStr ''test''] True]
   \<and> calls (makeBucket ready_connector sample_host [JStr ''test'', JStr ''us-east-1''])
       = [ClientCall ''makeBucket'' [JStr ''test'', JStr ''us-east-1''] True]"
proof -
  have a: "client ready_connector = JRef 7"
    by (rule ready_connector_client)
  show ?thesis
    using a makeBucket_variant [OF a, of "[JStr ''test'']" sample_host]
      makeBucket_variant [OF a, of "[JStr ''test'', JStr ''us-east-1'']" sample_host]
    by (simp add: arg_def)
qed

section \<open>Properties of the operation table\<close>

lemma fst_set_prop: "fst ` set (set_prop t k v) = insert k (fst ` set t)"
  by (induction t k v rule: set_prop.induct) auto

lemma set_set_prop: "set (set_prop t k v) \<subseteq> insert (k, v) (set t)"
  by (induction t k v rule: set_prop.induct) auto

lemma fst_bind_loop:
  "fst ` set (foldl (\<lambda>t m. set_prop t m (g m)) t0 ms) = fst ` set t0 \<union> set ms"
  by (induction ms arbitrary: t0) (auto simp: fst_set_prop)

lemma set_bind_loop:
  "set (foldl (\<lambda>t m. set_prop t m (g m)) t0 ms) \<subseteq> set t0 \<union> (\<lambda>m. (m, g m)) ` set ms"
proof (induction ms arbitrary: t0)
  case Nil
  then show ?case by simp
next
  case (Cons m ms)
  have "set (foldl (\<lambda>t m. set_prop t m (g m)) (set_prop t0 m (g m)) ms)
          \<subseteq> set (set_prop t0 m (g m)) \<union> (\<lambda>m. (m, g m)) ` set ms"
    by (rule Cons.IH)
  also have "\<dots> \<subseteq> insert (m, g m) (set t0) \<union> (\<lambda>m. (m, g m)) ` set ms"
    using set_set_prop [of t0 m "g m"] by blast
  finally show ?case by auto
qed

lemma dao_assignments_defined: "set dao_assignments \<subseteq> fst ` set MinioDB_prototype"
  by (simp add: dao_assignments_def MinioDB_prototype_def)

lemma unpublished:
  "''setObjectRetention'' \<notin> set dao_assignments"
  "''setObjectLegalHold'' \<notin> set dao_assignments"
  "''listObjectsV2WithMetadata'' \<notin> set dao_assignments"
  "''removeAllBucketNotification'' \<notin> set dao_assignments"
  "''listenBucketNotification'' \<notin> set dao_assignments"
  by (simp_all add: dao_assignments_def)

lemma unpublished_defined:
  "{''setObjectRetention'', ''setObjectLegalHold'', ''listObjectsV2WithMetadata'',
    ''removeAllBucketNotification'', ''listenBucketNotification''}
     \<subseteq> fst ` set MinioDB_prototype"
  by (simp add: MinioDB_prototype_def)

lemma table_after:
  "DataAccessObject (fst (setupDataAccessObject self h)) =
     foldl (\<lambda>t m. set_prop t m (Bound m (oid self))) (DataAccessObject self) dao_assignments"
  by (simp add: setupDataAccessObject_def Let_def split: option.splits)

lemma table_published:
  "dataSource self = Some ds \<Longrightarrow>
   fst (snd (setupDataAccessObject self h))
     = Normal (DataAccessObject (fst (setupDataAccessObject self h)))
   \<and> (\<exists>ds'. dataSource (fst (setupDataAccessObject self h)) = Some ds'
         \<and> ds_DataAccessObject ds' = Some (DataAccessObject (fst (setupDataAccessObject self h))))"
  by (simp add: setupDataAccessObject_def Let_def)

lemma setup_table_entries:
  assumes "\<forall>(n, e) \<in> set (DataAccessObject self). n \<in> set dao_assignments \<and> e = Bound n (oid self)"
  shows "fst ` set (DataAccessObject (fst (setupDataAccessObject self h))) = set dao_assignments"
    and "\<forall>(n, e) \<in> set (DataAccessObject (fst (setupDataAccessObject self h))).
           n \<in> set dao_assignments \<and> e = Bound n (oid self)"
proof -
  let ?t = "DataAccessObject (fst (setupDataAccessObject self h))"
  have old: "fst ` set (DataAccessObject self) \<subseteq> set dao_assignments"
    using assms by auto
  show "fst ` set ?t = set dao_assignments"
    using old by (auto simp: table_after fst_bind_loop)
  have entries: "set ?t \<subseteq> set (DataAccessObject self)
                   \<union> (\<lambda>m. (m, Bound m (oid self))) ` set dao_assignments"
    unfolding table_after by (rule set_bind_loop)
  show "\<forall>(n, e) \<in> set ?t. n \<in> set dao_assignments \<and> e = Bound n (oid self)"
  proof (clarify)
    fix n e assume "(n, e) \<in> set ?t"
    with entries have "(n, e) \<in> set (DataAccessObject self)
        \<or> (n, e) \<in> (\<lambda>m. (m, Bound m (oid self))) ` set dao_assignments" by blast
    then show "n \<in> set dao_assignments \<and> e = Bound n (oid self)"
      using assms by auto
  qed
qed

lemma setup_oid: "oid (fst (setupDataAccessObject self h)) = oid self"
  by (simp add: setupDataAccessObject_def Let_def split: option.splits)

lemma new_connector_table: "DataAccessObject (fst (new_MinioDB h this s)) = []"
  by (simp add: new_MinioDB_def Let_def)

lemma connect_keeps_table:
  assumes "\<forall>(n, e) \<in> set (DataAccessObject self). n \<in> set dao_assignments \<and> e = Bound n (oid self)"
  shows "\<forall>(n, e) \<in> set (DataAccessObject (after (connect self h callback))).
           n \<in> set dao_assignments \<and> e = Bound n (oid (after (connect self h callback)))"
proof -
  have published: "\<forall>(n, e) \<in> set (DataAccessObject (fst (setupDataAccessObject
                  (self\<lparr>connector := Some (oid self), client := JRef r\<rparr>) h))).
           n \<in> set dao_assignments \<and> e = Bound n (oid self)" for r
    using setup_table_entries(2) [of "self\<lparr>connector := Some (oid self), client := JRef r\<rparr>" h]
      assms by simp
  show ?thesis
  proof (cases "truthy (client self)")
    case True
    with assms show ?thesis by (simp add: connect_def)
  next
    case no_client: False
    show ?thesis
    proof (cases "dataSource self")
      case None
      with no_client assms show ?thesis by (simp add: connect_def)
    next
      case (Some ds)
      show ?thesis
      proof (cases "truthy (connecting ds)")
        case True
        with no_client Some assms show ?thesis by (simp add: connect_def)
      next
        case False
        show ?thesis
        proof (cases "new_Client h (validOptions (settings self))")
          case (Thrown e)
          with no_client Some False assms show ?thesis by (simp add: connect_def)
        next
          case (Normal r)
          have "after (connect self h callback)
                  = fst (setupDataAccessObject
                           (self\<lparr>connector := Some (oid self), client := JRef r\<rparr>) h)"
            using no_client Some False Normal
            by (simp add: connect_def split: prod.splits)
          with published [of r] show ?thesis
            by (simp add: setup_oid)
        qed
      qed
    qed
  qed
qed

text \<open>
  C9. Whenever the table so far holds only entries of earlier runs of
  \<^verbatim>\<open>setupDataAccessObject\<close> (the empty table of a new connector does, and
  \<^verbatim>\<open>connect\<close> keeps it so), the names
  in the table after a run are the assigned ones: \<^verbatim>\<open>setObjectRetention\<close>,
  \<^verbatim>\<open>setObjectLegalHold\<close>, \<^verbatim>\<open>listObjectsV2WithMetadata\<close>,
  \<^verbatim>\<open>removeAllBucketNotification\<close> and \<^verbatim>\<open>listenBucketNotification\<close> are not among
  them, although the prototype defines all five; and every entry is the prototype
  method of its own name bound to this connector.
\<close>

theorem published_table:
  assumes "\<forall>(n, e) \<in> set (DataAccessObject self). n \<in> set dao_assignments \<and> e = Bound n (oid self)"
  shows "fst ` set (DataAccessObject (fst (setupDataAccessObject self h))) = set dao_assignments
    \<and> ''setObjectRetention'' \<notin> fst ` set (DataAccessObject (fst (setupDataAccessObject self h)))
    \<and> ''setObjectLegalHold'' \<notin> fst ` set (DataAccessObject (fst (setupDataAccessObject self h)))
    \<and> ''listObjectsV2WithMetadata'' \<notin> fst ` set (DataAccessObject (fst (setupDataAccessObject self h)))
    \<and> ''removeAllBucketNotification'' \<notin> fst ` set (DataAccessObject (fst (setupDataAccessObject self h)))
    \<and> ''listenBucketNotification'' \<notin> fst ` set (DataAccessObject (fst (setupDataAccessObject self h)))
    \<and> {''setObjectRetention'', ''setObjectLegalHold'', ''listObjectsV2WithMetadata'',
        ''removeAllBucketNotification'', ''listenBucketNotification''}
         \<subseteq> fst ` set MinioDB_prototype
    \<and> (\<forall>(n, e) \<in> set (DataAccessObject (fst (setupDataAccessObject self h))).
          e = Bound n (oid self) \<and> n \<in> fst ` set MinioDB_prototype)"
proof -
  let ?t = "DataAccessObject (fst (setupDataAccessObject self h))"
  have names: "fst ` set ?t = set dao_assignments"
    using assms by (rule setup_table_entries(1))
  have inside: "\<forall>(n, e) \<in> set ?t. n \<in> set dao_assignments \<and> e = Bound n (oid self)"
    using assms by (rule setup_table_entries(2))
  have bound: "\<forall>(n, e) \<in> set ?t. e = Bound n (oid self) \<and> n \<in> fst ` set MinioDB_prototype"
    using inside dao_assignments_defined by blast
  show ?thesis
    using names bound unpublished unpublished_defined by simp
qed

theorem published_table_witness:
  "DataAccessObject sample_connector = []
   \<and> ''setObjectRetention''
        \<notin> fst ` set (DataAccessObject (fst (setupDataAccessObject sample_connector sample_host)))
   \<and> ''listenBucketNotification''
        \<notin> fst ` set (DataAccessObject (fst (setupDataAccessObject sample_connector sample_host)))
   \<and> (''makeBucket'', Bound ''makeBucket'' 4)
        \<in> set (DataAccessObject (fst (setupDataAccessObject sample_connector sample_host)))"
proof -
  let ?t = "DataAccessObject (fst (setupDataAccessObject sample_connector sample_host))"
  have a: "\<forall>(n, e) \<in> set (DataAccessObject sample_connector).
             n \<in> set dao_assignments \<and> e = Bound n (oid sample_connector)"
    by (simp add: sample_connector_fields)
  note t = published_table [OF a, of sample_host]
  note names = t [THEN conjunct1]
  note rest = t [THEN conjunct2]
  note absent = rest [THEN conjunct1]
    rest [THEN conjunct2, THEN conjunct2, THEN conjunct2, THEN conjunct2, THEN conjunct1]
  note bound = rest [THEN conjunct2, THEN conjunct2, THEN conjunct2, THEN conjunct2,
    THEN conjunct2, THEN conjunct2]
  have "''makeBucket'' \<in> set dao_assignments"
    by (simp add: dao_assignments_def)
  with names have "''makeBucket'' \<in> fst ` set ?t" by simp
  then obtain e where e: "(''makeBucket'', e) \<in> set ?t" by auto
  with bound have "e = Bound ''makeBucket'' (oid sample_connector)" by auto
  with e have "(''makeBucket'', Bound ''makeBucket'' 4) \<in> set ?t"
    by (simp add: sample_connector_fields)
  with absent show ?thesis
    by (simp add: sample_connector_fields)
qed

section \<open>Properties of the initialisation\<close>





section \<open>A constructor that throws\<close>

text \<open>
  C4. The sample connector, not yet connected, with a host whose
  \<^verbatim>\<open>new minio.Client(...)\<close> throws the error object 70: the exception leaves
  \<^verbatim>\<open>connect\<close> as it is, the callback is neither invoked nor scheduled, and the
  connector still has no client and no published table.
\<close>

theorem connect_constructor_failure_escapes:
  "outcome (connect sample_connector broken_host (JFn 3)) = Thrown (JRef 70)
   \<and> invoked (connect sample_connector broken_host (JFn 3)) = []
   \<and> ticks (connect sample_connector broken_host (JFn 3)) = []
   \<and> client (after (connect sample_connector broken_host (JFn 3))) = JUndefined
   \<and> DataAccessObject (after (connect sample_connector broken_host (JFn 3))) = []"
  by (simp add: connect_def sample_connector_fields sample_dataSource_def broken_host_def sample_host_def)

section \<open>Properties of all operations: failure and success\<close>

lemma rejects_forward_callback:
  "rejects_on_failure self h (forward_callback self h label m as rw)"
  by (auto simp: rejects_on_failure_def forward_callback_def made_def promise_of_callback_def
      client_call_def reports_failure_def split: reply.splits list.splits)

lemma rejects_forward_stream:
  "rejects_on_failure self h (forward_stream self h label m as)"
  by (auto simp: rejects_on_failure_def forward_stream_def made_def
      client_call_def reports_failure_def split: reply.splits list.splits)

lemma rejects_no_calls: "calls res = [] \<Longrightarrow> rejects_on_failure self h res"
  by (simp add: rejects_on_failure_def)

lemma rejects_presignedPostPolicy:
  "rejects_on_failure self h (presignedPostPolicy self h as)"
  by (simp add: presignedPostPolicy_def rejects_forward_callback rejects_no_calls
      split: option.split)

lemma rejects_setBucketPolicy:
  "rejects_on_failure self h (setBucketPolicy self h as)"
  by (simp add: setBucketPolicy_def rejects_forward_callback rejects_no_calls
      split: jsval.split completion.split)

lemmas plain_op_defs =
  makeBucket_def listBuckets_def bucketExists_def removeBucket_def listObjects_def
  listObjectsV2_def listObjectsV2WithMetadata_def listIncompleteUploads_def
  setBucketReplication_def
  getBucketReplication_def removeBucketReplication_def getBucketTagging_def
  setBucketTagging_def removeBucketTagging_def setBucketLifecycle_def
  getBucketLifecycle_def removeBucketLifecycle_def setObjectLockConfig_def
  getObjectLockConfig_def getBucketEncryption_def setBucketEncryption_def
  removeBucketEncryption_def getObject_def getPartialObject_def fGetObject_def
  putObject_def fPutObject_def copyObject_def statObject_def removeObject_def
  removeObjects_def removeIncompleteUpload_def putObjectRetention_def
  getObjectRetention_def setObjectRetention_def setObjectTagging_def
  removeObjectTagging_def getObjectTagging_def getObjectLegalHold_def
  setObjectLegalHold_def composeObject_def selectObjectContent_def presignedUrl_def
  presignedGetObject_def presignedPutObject_def
  getBucketNotification_def setBucketNotification_def removeAllBucketNotification_def
  listenBucketNotification_def getBucketPolicy_def

lemma all_reject:
  "list_all (\<lambda>(n, f). n = ''getBucketVersioning'' \<or> n = ''setBucketVersioning''
        \<or> (\<forall>self h as. rejects_on_failure self h (f self h as))) MinioDB_prototype"
  unfolding MinioDB_prototype_def
  by (simp add: plain_op_defs rejects_forward_callback rejects_forward_stream
      rejects_presignedPostPolicy rejects_setBucketPolicy)

lemma prototype_rejects:
  assumes "(n, f) \<in> set MinioDB_prototype"
    and "n \<noteq> ''getBucketVersioning''" and "n \<noteq> ''setBucketVersioning''"
  shows "rejects_on_failure self h (f self h as)"
  using assms all_reject by (auto simp: list_all_iff)


lemma prototype_getBucketVersioning:
  "(''getBucketVersioning'', f) \<in> set MinioDB_prototype \<Longrightarrow> f = getBucketVersioning"
  by (simp add: MinioDB_prototype_def)

lemma getBucketVersioning_failure:
  assumes "client self = JRef r"
    and "c \<in> set (calls (getBucketVersioning self h as))"
    and "reports_failure (client_method h r c) c e"
  shows "(\<forall>p. returned (getBucketVersioning self h as) \<noteq> Normal (PromiseOf p))
       \<and> (client_method h r c = Throws e \<longrightarrow> returned (getBucketVersioning self h as) = Thrown e)
       \<and> (\<forall>v invs. client_method h r c = Returns v invs \<and> callable (arg as 1) \<longrightarrow>
             returned (getBucketVersioning self h as) = Normal (Value JUndefined)
           \<and> take 1 (delivered (getBucketVersioning self h as)) = [(arg as 1, [e])])"
  using assms
  by (auto simp: getBucketVersioning_def client_call_def made_def reports_failure_def
      split: reply.splits list.splits)

lemma ready_call: "client_call ready_connector h c = client_method h 7 c"
  by (simp add: client_call_def ready_connector_client)

lemma ready_made: "made ready_connector c = [c]"
  by (simp add: made_def ready_connector_client)

text \<open>
  C1, as amended. For every operation of the prototype other than
  \<^verbatim>\<open>getBucketVersioning\<close> and \<^verbatim>\<open>setBucketVersioning\<close>, on a connector with a client
  handle: when the client reports a failure of a call the operation makes, the promise
  the operation returns is rejected with that very error (the calls are the storage
  calls on the handle; the policy object \<^verbatim>\<open>presignedPostPolicy\<close> builds beforehand
  is not one of them). \<^verbatim>\<open>getBucketVersioning\<close>
  returns no promise: an exception of the client call leaves it, and an error
  reported to the completion callback is handed, alone, to the caller's callback when
  that is a function.
\<close>

theorem failure_is_surfaced:
  assumes "(n, f) \<in> set MinioDB_prototype" and "client self = JRef r"
    and "c \<in> set (calls (f self h as))"
    and "reports_failure (client_method h r c) c e"
  shows "(n \<noteq> ''getBucketVersioning'' \<and> n \<noteq> ''setBucketVersioning'' \<longrightarrow>
            returned (f self h as) = Normal (PromiseOf (Rejected e)))
       \<and> (n = ''getBucketVersioning'' \<longrightarrow>
            (\<forall>p. returned (f self h as) \<noteq> Normal (PromiseOf p))
          \<and> (client_method h r c = Throws e \<longrightarrow> returned (f self h as) = Thrown e)
          \<and> (\<forall>v invs. client_method h r c = Returns v invs \<and> callable (arg as 1) \<longrightarrow>
                returned (f self h as) = Normal (Value JUndefined)
              \<and> take 1 (delivered (f self h as)) = [(arg as 1, [e])]))"
proof (rule conjI)
  show "n \<noteq> ''getBucketVersioning'' \<and> n \<noteq> ''setBucketVersioning'' \<longrightarrow>
          returned (f self h as) = Normal (PromiseOf (Rejected e))"
  proof (rule impI)
    assume "n \<noteq> ''getBucketVersioning'' \<and> n \<noteq> ''setBucketVersioning''"
    with assms(1) have "rejects_on_failure self h (f self h as)"
      by (simp add: prototype_rejects)
    with assms(2-4) show "returned (f self h as) = Normal (PromiseOf (Rejected e))"
      unfolding rejects_on_failure_def by blast
  qed
next
  show "n = ''getBucketVersioning'' \<longrightarrow>
            (\<forall>p. returned (f self h as) \<noteq> Normal (PromiseOf p))
          \<and> (client_method h r c = Throws e \<longrightarrow> returned (f self h as) = Thrown e)
          \<and> (\<forall>v invs. client_method h r c = Returns v invs \<and> callable (arg as 1) \<longrightarrow>
                returned (f self h as) = Normal (Value JUndefined)
              \<and> take 1 (delivered (f self h as)) = [(arg as 1, [e])])"
  proof (rule impI)
    assume "n = ''getBucketVersioning''"
    with assms(1) have f: "f = getBucketVersioning"
      by (simp add: prototype_getBucketVersioning)
    show "(\<forall>p. returned (f self h as) \<noteq> Normal (PromiseOf p))
          \<and> (client_method h r c = Throws e \<longrightarrow> returned (f self h as) = Thrown e)
          \<and> (\<forall>v invs. client_method h r c = Returns v invs \<and> callable (arg as 1) \<longrightarrow>
                returned (f self h as) = Normal (Value JUndefined)
              \<and> take 1 (delivered (f self h as)) = [(arg as 1, [e])])"
      unfolding f
      by (rule getBucketVersioning_failure [OF assms(2) assms(3) [unfolded f] assms(4)])
  qed
qed


theorem failure_is_surfaced_witness:
  "(''removeObject'', removeObject) \<in> set MinioDB_prototype
   \<and> client ready_connector = JRef 7
   \<and> ClientCall ''removeObject'' [JStr ''test'', JStr ''missing.txt'', JUndefined] True
        \<in> set (calls (removeObject ready_connector failing_host
                         [JStr ''test'', JStr ''missing.txt'']))
   \<and> reports_failure
        (client_method failing_host 7
           (ClientCall ''removeObject'' [JStr ''test'', JStr ''missing.txt'', JUndefined] True))
        (ClientCall ''removeObject'' [JStr ''test'', JStr ''missing.txt'', JUndefined] True)
        (JRef 60)
   \<and> returned (removeObject ready_connector failing_host [JStr ''test'', JStr ''missing.txt''])
        = Normal (PromiseOf (Rejected (JRef 60)))"
proof -
  let ?c = "ClientCall ''removeObject'' [JStr ''test'', JStr ''missing.txt'', JUndefined] True"
  have a: "(''removeObject'', removeObject) \<in> set MinioDB_prototype"
    by (simp add: MinioDB_prototype_def)
  have b: "client ready_connector = JRef 7"
    by (rule ready_connector_client)
  have c: "?c \<in> set (calls (removeObject ready_connector failing_host
                                [JStr ''test'', JStr ''missing.txt'']))"
    by (simp add: removeObject_def forward_callback_def ready_made arg_def)
  have d: "reports_failure (client_method failing_host 7 ?c) ?c (JRef 60)"
    by (simp add: reports_failure_def failing_host_def sample_host_def)
  from failure_is_surfaced [OF a b c d]
  have "returned (removeObject ready_connector failing_host [JStr ''test'', JStr ''missing.txt''])
          = Normal (PromiseOf (Rejected (JRef 60)))"
    by simp
  with a b c d show ?thesis by blast
qed

text \<open>
  Without the exception the statement fails on \<^verbatim>\<open>getBucketVersioning\<close>: the client
  reports the error object 60, the method returns \<^verbatim>\<open>undefined\<close> and the error goes
  to the caller's callback.
\<close>

theorem getBucketVersioning_failure_counterexample:
  "(''getBucketVersioning'', getBucketVersioning) \<in> set MinioDB_prototype
   \<and> client ready_connector = JRef 7
   \<and> calls (getBucketVersioning ready_connector failing_host [JStr ''test'', JFn 3])
        = [ClientCall ''getBucketVersioning'' [JObj [(''Bucket'', JStr ''test'')]] True]
   \<and> reports_failure
        (client_method failing_host 7
           (ClientCall ''getBucketVersioning'' [JObj [(''Bucket'', JStr ''test'')]] True))
        (ClientCall ''getBucketVersioning'' [JObj [(''Bucket'', JStr ''test'')]] True)
        (JRef 60)
   \<and> returned (getBucketVersioning ready_connector failing_host [JStr ''test'', JFn 3])
        = Normal (Value JUndefined)
   \<and> returned (getBucketVersioning ready_connector failing_host [JStr ''test'', JFn 3])
        \<noteq> Normal (PromiseOf (Rejected (JRef 60)))
   \<and> delivered (getBucketVersioning ready_connector failing_host [JStr ''test'', JFn 3])
        = [(JFn 3, [JRef 60])]"
  by (simp add: MinioDB_prototype_def ready_connector_client getBucketVersioning_def
      ready_call ready_made reports_failure_def failing_host_def sample_host_def arg_def)

lemma value_forward_callback:
  "resolves_with_value self h (forward_callback self h label m as Data)"
  by (auto simp: resolves_with_value_def forward_callback_def made_def promise_of_callback_def
      client_call_def reports_success_def resolve_value_def split: reply.splits list.splits)

lemma value_forward_stream:
  "resolves_with_value self h (forward_stream self h label m as)"
  by (auto simp: resolves_with_value_def forward_stream_def made_def
      client_call_def reports_success_def resolve_value_def split: reply.splits list.splits)

lemma value_no_calls: "calls res = [] \<Longrightarrow> resolves_with_value self h res"
  by (simp add: resolves_with_value_def)

lemma undefined_forward_callback:
  "resolves_with_undefined self h (forward_callback self h label m as Nothing)"
  by (auto simp: resolves_with_undefined_def forward_callback_def made_def promise_of_callback_def
      client_call_def reports_success_def resolve_value_def thenable_def
      split: reply.splits list.splits)

lemma value_presignedPostPolicy:
  "resolves_with_value self h (presignedPostPolicy self h as)"
  by (simp add: presignedPostPolicy_def value_forward_callback value_no_calls
      split: option.split)

lemma value_setBucketPolicy:
  "resolves_with_value self h (setBucketPolicy self h as)"
  by (simp add: setBucketPolicy_def value_forward_callback value_no_calls
      split: jsval.split completion.split)

lemmas value_op_defs =
  listBuckets_def bucketExists_def listObjects_def
  listObjectsV2_def listObjectsV2WithMetadata_def listIncompleteUploads_def
  setBucketReplication_def
  getBucketReplication_def removeBucketReplication_def getBucketTagging_def
  setBucketTagging_def removeBucketTagging_def setBucketLifecycle_def
  getBucketLifecycle_def removeBucketLifecycle_def setObjectLockConfig_def
  getObjectLockConfig_def getBucketEncryption_def setBucketEncryption_def
  removeBucketEncryption_def getObject_def getPartialObject_def fGetObject_def
  putObject_def fPutObject_def copyObject_def statObject_def
  removeObjects_def removeIncompleteUpload_def putObjectRetention_def
  getObjectRetention_def setObjectTagging_def
  removeObjectTagging_def getObjectTagging_def getObjectLegalHold_def
  setObjectLegalHold_def composeObject_def selectObjectContent_def presignedUrl_def
  presignedGetObject_def presignedPutObject_def
  getBucketNotification_def setBucketNotification_def
  listenBucketNotification_def getBucketPolicy_def

lemma all_resolve:
  "list_all (\<lambda>(n, f). n = ''getBucketVersioning'' \<or> n = ''setBucketVersioning''
        \<or> n = ''removeObject'' \<or> n = ''makeBucket'' \<or> n = ''removeBucket''
        \<or> n = ''setObjectRetention'' \<or> n = ''removeAllBucketNotification''
        \<or> (\<forall>self h as. resolves_with_value self h (f self h as))) MinioDB_prototype"
  unfolding MinioDB_prototype_def
  by (simp add: value_op_defs value_forward_callback value_forward_stream
      value_presignedPostPolicy value_setBucketPolicy)

lemma void_resolve:
  "list_all (\<lambda>(n, f). (n = ''makeBucket'' \<or> n = ''removeBucket''
        \<or> n = ''setObjectRetention'' \<or> n = ''removeAllBucketNotification'')
        \<longrightarrow> (\<forall>self h as. resolves_with_undefined self h (f self h as))) MinioDB_prototype"
  unfolding MinioDB_prototype_def
  by (simp add: makeBucket_def removeBucket_def setObjectRetention_def
      removeAllBucketNotification_def undefined_forward_callback)

lemma prototype_resolves:
  assumes "(n, f) \<in> set MinioDB_prototype"
    and "n \<noteq> ''getBucketVersioning''" and "n \<noteq> ''setBucketVersioning''"
    and "n \<noteq> ''removeObject''" and "n \<noteq> ''makeBucket''" and "n \<noteq> ''removeBucket''"
    and "n \<noteq> ''setObjectRetention''" and "n \<noteq> ''removeAllBucketNotification''"
  shows "resolves_with_value self h (f self h as)"
proof -
  from all_resolve have "\<forall>x \<in> set MinioDB_prototype. case x of (n, f) \<Rightarrow>
        n = ''getBucketVersioning'' \<or> n = ''setBucketVersioning''
        \<or> n = ''removeObject'' \<or> n = ''makeBucket'' \<or> n = ''removeBucket''
        \<or> n = ''setObjectRetention'' \<or> n = ''removeAllBucketNotification''
        \<or> (\<forall>self h as. resolves_with_value self h (f self h as))"
    by (simp only: list_all_iff)
  from this assms(1) have "case (n, f) of (n, f) \<Rightarrow>
        n = ''getBucketVersioning'' \<or> n = ''setBucketVersioning''
        \<or> n = ''removeObject'' \<or> n = ''makeBucket'' \<or> n = ''removeBucket''
        \<or> n = ''setObjectRetention'' \<or> n = ''removeAllBucketNotification''
        \<or> (\<forall>self h as. resolves_with_value self h (f self h as))"
    by (rule bspec)
  then have "n = ''getBucketVersioning'' \<or> n = ''setBucketVersioning''
        \<or> n = ''removeObject'' \<or> n = ''makeBucket'' \<or> n = ''removeBucket''
        \<or> n = ''setObjectRetention'' \<or> n = ''removeAllBucketNotification''
        \<or> (\<forall>self h as. resolves_with_value self h (f self h as))"
    by (simp only: prod.case)
  with assms(2-) show ?thesis by simp
qed

lemma prototype_void:
  assumes "(n, f) \<in> set MinioDB_prototype"
    and "n \<in> {''makeBucket'', ''removeBucket'', ''setObjectRetention'',
               ''removeAllBucketNotification''}"
  shows "resolves_with_undefined self h (f self h as)"
proof -
  from void_resolve have "\<forall>x \<in> set MinioDB_prototype. case x of (n, f) \<Rightarrow>
        (n = ''makeBucket'' \<or> n = ''removeBucket''
        \<or> n = ''setObjectRetention'' \<or> n = ''removeAllBucketNotification'')
        \<longrightarrow> (\<forall>self h as. resolves_with_undefined self h (f self h as))"
    by (simp only: list_all_iff)
  from this assms(1) have "case (n, f) of (n, f) \<Rightarrow>
        (n = ''makeBucket'' \<or> n = ''removeBucket''
        \<or> n = ''setObjectRetention'' \<or> n = ''removeAllBucketNotification'')
        \<longrightarrow> (\<forall>self h as. resolves_with_undefined self h (f self h as))"
    by (rule bspec)
  then have "(n = ''makeBucket'' \<or> n = ''removeBucket''
        \<or> n = ''setObjectRetention'' \<or> n = ''removeAllBucketNotification'')
        \<longrightarrow> (\<forall>self h as. resolves_with_undefined self h (f self h as))"
    by (simp only: prod.case)
  moreover from assms(2) have "n = ''makeBucket'' \<or> n = ''removeBucket''
        \<or> n = ''setObjectRetention'' \<or> n = ''removeAllBucketNotification''"
    by simp
  ultimately show ?thesis by simp
qed

lemma getBucketVersioning_success:
  assumes "client self = JRef r"
    and "c \<in> set (calls (getBucketVersioning self h as))"
    and "reports_success (client_method h r c) c v"
  shows "returned (getBucketVersioning self h as) = Normal (Value JUndefined)
       \<and> (callable (arg as 1) \<longrightarrow>
             take 1 (delivered (getBucketVersioning self h as)) = [(arg as 1, [JNull, v])])"
  using assms
  by (auto simp: getBucketVersioning_def client_call_def made_def reports_success_def
      split: reply.splits list.splits)

text \<open>
  C2, as amended. For every operation other than \<^verbatim>\<open>getBucketVersioning\<close>,
  \<^verbatim>\<open>setBucketVersioning\<close>, \<^verbatim>\<open>removeObject\<close> and the four whose callbacks end in
  \<^verbatim>\<open>resolve()\<close>: when the client reports success with a value, the promise is
  fulfilled with that value if it is no thenable, and follows the value if it is one.
  \<^verbatim>\<open>makeBucket\<close>, \<^verbatim>\<open>removeBucket\<close>, \<^verbatim>\<open>setObjectRetention\<close> and
  \<^verbatim>\<open>removeAllBucketNotification\<close> fulfil it with \<^verbatim>\<open>undefined\<close>.
  \<^verbatim>\<open>getBucketVersioning\<close> returns \<^verbatim>\<open>undefined\<close> and hands \<^verbatim>\<open>(null, value)\<close>
  to the caller's callback when that is a function.
\<close>

theorem success_is_passed_through:
  assumes "(n, f) \<in> set MinioDB_prototype" and "client self = JRef r"
    and "c \<in> set (calls (f self h as))"
    and "reports_success (client_method h r c) c v"
  shows "(n \<notin> {''getBucketVersioning'', ''setBucketVersioning'', ''removeObject'',
                ''makeBucket'', ''removeBucket'', ''setObjectRetention'',
                ''removeAllBucketNotification''} \<longrightarrow>
            returned (f self h as)
              = Normal (PromiseOf (if thenable h v then Follows v else Fulfilled v)))
       \<and> (n \<in> {''makeBucket'', ''removeBucket'', ''setObjectRetention'',
                ''removeAllBucketNotification''} \<longrightarrow>
            returned (f self h as) = Normal (PromiseOf (Fulfilled JUndefined)))
       \<and> (n = ''getBucketVersioning'' \<longrightarrow>
            returned (f self h as) = Normal (Value JUndefined)
          \<and> (callable (arg as 1) \<longrightarrow>
                take 1 (delivered (f self h as)) = [(arg as 1, [JNull, v])]))"
proof (intro conjI)
  show "n \<notin> {''getBucketVersioning'', ''setBucketVersioning'', ''removeObject'',
                ''makeBucket'', ''removeBucket'', ''setObjectRetention'',
                ''removeAllBucketNotification''} \<longrightarrow>
            returned (f self h as)
              = Normal (PromiseOf (if thenable h v then Follows v else Fulfilled v))"
  proof (rule impI)
    assume "n \<notin> {''getBucketVersioning'', ''setBucketVersioning'', ''removeObject'',
                ''makeBucket'', ''removeBucket'', ''setObjectRetention'',
                ''removeAllBucketNotification''}"
    then have "n \<noteq> ''getBucketVersioning''" "n \<noteq> ''setBucketVersioning''"
        "n \<noteq> ''removeObject''" "n \<noteq> ''makeBucket''" "n \<noteq> ''removeBucket''"
        "n \<noteq> ''setObjectRetention''" "n \<noteq> ''removeAllBucketNotification''"
      by simp_all
    with assms(1) have "resolves_with_value self h (f self h as)"
      by (rule prototype_resolves)
    with assms(2-4) show "returned (f self h as)
        = Normal (PromiseOf (if thenable h v then Follows v else Fulfilled v))"
      unfolding resolves_with_value_def by blast
  qed
next
  show "n \<in> {''makeBucket'', ''removeBucket'', ''setObjectRetention'',
                ''removeAllBucketNotification''} \<longrightarrow>
            returned (f self h as) = Normal (PromiseOf (Fulfilled JUndefined))"
  proof (rule impI)
    assume "n \<in> {''makeBucket'', ''removeBucket'', ''setObjectRetention'',
                ''removeAllBucketNotification''}"
    with assms(1) have "resolves_with_undefined self h (f self h as)"
      by (rule prototype_void)
    with assms(2-4) show "returned (f self h as) = Normal (PromiseOf (Fulfilled JUndefined))"
      unfolding resolves_with_undefined_def by blast
  qed
next
  show "n = ''getBucketVersioning'' \<longrightarrow>
            returned (f self h as) = Normal (Value JUndefined)
          \<and> (callable (arg as 1) \<longrightarrow>
                take 1 (delivered (f self h as)) = [(arg as 1, [JNull, v])])"
  proof (rule impI)
    assume "n = ''getBucketVersioning''"
    with assms(1) have f: "f = getBucketVersioning"
      by (simp add: prototype_getBucketVersioning)
    show "returned (f self h as) = Normal (Value JUndefined)
          \<and> (callable (arg as 1) \<longrightarrow>
                take 1 (delivered (f self h as)) = [(arg as 1, [JNull, v])])"
      unfolding f
      by (rule getBucketVersioning_success [OF assms(2) assms(3) [unfolded f] assms(4)])
  qed
qed

theorem success_is_passed_through_witness:
  "(''listBuckets'', listBuckets) \<in> set MinioDB_prototype
   \<and> client ready_connector = JRef 7
   \<and> ClientCall ''listBuckets'' [] True \<in> set (calls (listBuckets ready_connector sample_host []))
   \<and> reports_success (client_method sample_host 7 (ClientCall ''listBuckets'' [] True))
        (ClientCall ''listBuckets'' [] True) (JStr ''data'')
   \<and> returned (listBuckets ready_connector sample_host [])
        = Normal (PromiseOf (Fulfilled (JStr ''data'')))
   \<and> ClientCall ''listBuckets'' [] True
        \<in> set (calls (listBuckets ready_connector thenable_host []))
   \<and> reports_success (client_method thenable_host 7 (ClientCall ''listBuckets'' [] True))
        (ClientCall ''listBuckets'' [] True) (JObj [(''then'', JFn 8)])
   \<and> returned (listBuckets ready_connector thenable_host [])
        = Normal (PromiseOf (Follows (JObj [(''then'', JFn 8)])))"
proof -
  let ?c = "ClientCall ''listBuckets'' [] True"
  have a: "(''listBuckets'', listBuckets) \<in> set MinioDB_prototype"
    by (simp add: MinioDB_prototype_def)
  have b: "client ready_connector = JRef 7"
    by (rule ready_connector_client)
  have c: "?c \<in> set (calls (listBuckets ready_connector sample_host []))"
    by (simp add: listBuckets_def forward_callback_def ready_made)
  have d: "reports_success (client_method sample_host 7 ?c) ?c (JStr ''data'')"
    by (simp add: reports_success_def sample_host_def)
  have c': "?c \<in> set (calls (listBuckets ready_connector thenable_host []))"
    by (simp add: listBuckets_def forward_callback_def ready_made)
  have d': "reports_success (client_method thenable_host 7 ?c) ?c (JObj [(''then'', JFn 8)])"
    by (simp add: reports_success_def thenable_host_def sample_host_def)
  from success_is_passed_through [OF a b c d]
  have plain: "returned (listBuckets ready_connector sample_host [])
          = Normal (PromiseOf (Fulfilled (JStr ''data'')))"
    by (simp add: thenable_def)
  from success_is_passed_through [OF a b c' d']
  have adopted: "returned (listBuckets ready_connector thenable_host [])
          = Normal (PromiseOf (Follows (JObj [(''then'', JFn 8)])))"
    by (simp add: thenable_def get_prop_def)
  from a b c d plain c' d' adopted show ?thesis by blast
qed

text \<open>
  Without the exception the statement fails on \<^verbatim>\<open>getBucketVersioning\<close>: the client
  reports the value \<^verbatim>\<open>'data'\<close>, the method returns \<^verbatim>\<open>undefined\<close> and the value
  goes to the caller's callback.
\<close>

theorem getBucketVersioning_success_counterexample:
  "(''getBucketVersioning'', getBucketVersioning) \<in> set MinioDB_prototype
   \<and> client ready_connector = JRef 7
   \<and> calls (getBucketVersioning ready_connector sample_host [JStr ''test'', JFn 3])
        = [ClientCall ''getBucketVersioning'' [JObj [(''Bucket'', JStr ''test'')]] True]
   \<and> reports_success
        (client_method sample_host 7
           (ClientCall ''getBucketVersioning'' [JObj [(''Bucket'', JStr ''test'')]] True))
        (ClientCall ''getBucketVersioning'' [JObj [(''Bucket'', JStr ''test'')]] True)
        (JStr ''data'')
   \<and> returned (getBucketVersioning ready_connector sample_host [JStr ''test'', JFn 3])
        \<noteq> Normal (PromiseOf (Fulfilled (JStr ''data'')))
   \<and> returned (getBucketVersioning ready_connector sample_host [JStr ''test'', JFn 3])
        = Normal (Value JUndefined)
   \<and> delivered (getBucketVersioning ready_connector sample_host [JStr ''test'', JFn 3])
        = [(JFn 3, [JNull, JStr ''data''])]"
  by (simp add: MinioDB_prototype_def ready_connector_client getBucketVersioning_def
      ready_call ready_made reports_success_def sample_host_def arg_def)

section \<open>Properties of all operations: the calling convention\<close>

lemma promise_forward_callback: "returns_promise (forward_callback self h label m as rw)"
  by (simp add: returns_promise_def forward_callback_def)

lemma promise_forward_stream: "returns_promise (forward_stream self h label m as)"
  by (simp add: returns_promise_def forward_stream_def)

lemma promise_setBucketPolicy: "returns_promise (setBucketPolicy self h as)"
  by (simp add: setBucketPolicy_def returns_promise_def forward_callback_def
      split: jsval.split completion.split)

lemma all_promise:
  "list_all (\<lambda>(n, f). n = ''getBucketVersioning'' \<or> n = ''setBucketVersioning''
        \<or> n = ''presignedPostPolicy''
        \<or> (\<forall>self h as. returns_promise (f self h as))) MinioDB_prototype"
  unfolding MinioDB_prototype_def
  by (simp add: plain_op_defs promise_forward_callback promise_forward_stream
      promise_setBucketPolicy)

lemma prototype_promise:
  assumes "(n, f) \<in> set MinioDB_prototype"
    and "n \<noteq> ''getBucketVersioning''" and "n \<noteq> ''setBucketVersioning''"
    and "n \<noteq> ''presignedPostPolicy''"
  shows "returns_promise (f self h as)"
proof -
  from all_promise have "\<forall>x \<in> set MinioDB_prototype. case x of (n, f) \<Rightarrow>
        n = ''getBucketVersioning'' \<or> n = ''setBucketVersioning''
        \<or> n = ''presignedPostPolicy''
        \<or> (\<forall>self h as. returns_promise (f self h as))"
    by (simp only: list_all_iff)
  from this assms(1) have "case (n, f) of (n, f) \<Rightarrow>
        n = ''getBucketVersioning'' \<or> n = ''setBucketVersioning''
        \<or> n = ''presignedPostPolicy''
        \<or> (\<forall>self h as. returns_promise (f self h as))"
    by (rule bspec)
  then have "n = ''getBucketVersioning'' \<or> n = ''setBucketVersioning''
        \<or> n = ''presignedPostPolicy''
        \<or> (\<forall>self h as. returns_promise (f self h as))"
    by (simp only: prod.case)
  with assms(2-) show ?thesis by simp
qed

lemma prototype_presignedPostPolicy:
  "(''presignedPostPolicy'', f) \<in> set MinioDB_prototype \<Longrightarrow> f = presignedPostPolicy"
  by (simp add: MinioDB_prototype_def)

lemma presignedPostPolicy_shape:
  "delivered (presignedPostPolicy self h as) = []
   \<and> (build_policy self h as = None \<longrightarrow>
        (\<exists>p. returned (presignedPostPolicy self h as) = Normal (PromiseOf p)))"
  by (simp add: presignedPostPolicy_def forward_callback_def split: option.split)

lemma getBucketVersioning_delivered:
  "callable cb \<Longrightarrow>
     concat (map (getBucketVersioning_callback cb) invs)
       = map (\<lambda>(err, data). (cb, if truthy err then [err] else [JNull, data])) invs"
  by (induction invs) auto

lemma getBucketVersioning_not_delivered:
  "\<not> callable cb \<Longrightarrow> concat (map (getBucketVersioning_callback cb) invs) = []"
  by (induction invs) auto

lemma getBucketVersioning_raises:
  "truthy cb \<Longrightarrow> \<not> callable cb \<Longrightarrow>
     concat (map (getBucketVersioning_raised cb) invs) = replicate (length invs) TypeError"
  by (induction invs) auto

lemma getBucketVersioning_shape:
  "(\<forall>p. returned (getBucketVersioning self h as) \<noteq> Normal (PromiseOf p))
   \<and> (\<forall>r v invs. client self = JRef r
         \<and> client_method h r
             (ClientCall ''getBucketVersioning'' [JObj [(''Bucket'', arg as 0)]] True)
           = Returns v invs \<longrightarrow>
         returned (getBucketVersioning self h as) = Normal (Value JUndefined)
       \<and> (callable (arg as 1) \<longrightarrow>
             delivered (getBucketVersioning self h as)
               = map (\<lambda>(err, data). (arg as 1, if truthy err then [err] else [JNull, data]))
                   invs)
       \<and> (\<not> callable (arg as 1) \<longrightarrow> delivered (getBucketVersioning self h as) = [])
       \<and> (truthy (arg as 1) \<and> \<not> callable (arg as 1) \<longrightarrow>
             raised (getBucketVersioning self h as) = replicate (length invs) TypeError))"
  by (auto simp: getBucketVersioning_def client_call_def getBucketVersioning_delivered
      getBucketVersioning_not_delivered getBucketVersioning_raises split: reply.splits)

text \<open>
  C7, as amended. Every operation other than \<^verbatim>\<open>getBucketVersioning\<close>,
  \<^verbatim>\<open>setBucketVersioning\<close> and \<^verbatim>\<open>presignedPostPolicy\<close> returns a promise, and its
  own code never invokes a callback of its caller (\<^verbatim>\<open>listIncompleteUploads\<close> and the
  tagging operations declare a callback parameter and ignore it).
  \<^verbatim>\<open>presignedPostPolicy\<close> invokes none either and returns a promise whenever its
  preliminary policy object is built without an exception. \<^verbatim>\<open>getBucketVersioning\<close>
  never returns a promise: when the client call returns, the method returns
  \<^verbatim>\<open>undefined\<close>; a caller's callback that is a function receives \<^verbatim>\<open>(err)\<close> or
  \<^verbatim>\<open>(null, data)\<close> for every completion; without one nothing is invoked, and a
  truthy value that is no function makes every completion throw a \<^verbatim>\<open>TypeError\<close>.
\<close>

theorem uniform_promise_contract:
  assumes "(n, f) \<in> set MinioDB_prototype"
  shows "(n \<notin> {''getBucketVersioning'', ''setBucketVersioning'', ''presignedPostPolicy''} \<longrightarrow>
            (\<exists>p. returned (f self h as) = Normal (PromiseOf p))
          \<and> delivered (f self h as) = [] \<and> raised (f self h as) = [])
       \<and> (n = ''presignedPostPolicy'' \<longrightarrow>
            delivered (f self h as) = []
          \<and> (build_policy self h as = None \<longrightarrow>
               (\<exists>p. returned (f self h as) = Normal (PromiseOf p))))
       \<and> (n = ''getBucketVersioning'' \<longrightarrow>
            (\<forall>p. returned (f self h as) \<noteq> Normal (PromiseOf p))
          \<and> (\<forall>r v invs. client self = JRef r
                \<and> client_method h r
                    (ClientCall ''getBucketVersioning'' [JObj [(''Bucket'', arg as 0)]] True)
                  = Returns v invs \<longrightarrow>
                returned (f self h as) = Normal (Value JUndefined)
              \<and> (callable (arg as 1) \<longrightarrow>
                    delivered (f self h as)
                      = map (\<lambda>(err, data). (arg as 1, if truthy err then [err] else [JNull, data]))
                          invs)
              \<and> (\<not> callable (arg as 1) \<longrightarrow> delivered (f self h as) = [])
              \<and> (truthy (arg as 1) \<and> \<not> callable (arg as 1) \<longrightarrow>
                    raised (f self h as) = replicate (length invs) TypeError)))"
proof (intro conjI)
  show "n \<notin> {''getBucketVersioning'', ''setBucketVersioning'', ''presignedPostPolicy''} \<longrightarrow>
            (\<exists>p. returned (f self h as) = Normal (PromiseOf p))
          \<and> delivered (f self h as) = [] \<and> raised (f self h as) = []"
  proof (rule impI)
    assume "n \<notin> {''getBucketVersioning'', ''setBucketVersioning'', ''presignedPostPolicy''}"
    then have "n \<noteq> ''getBucketVersioning''" "n \<noteq> ''setBucketVersioning''"
        "n \<noteq> ''presignedPostPolicy''"
      by simp_all
    with assms have "returns_promise (f self h as)"
      by (rule prototype_promise)
    then show "(\<exists>p. returned (f self h as) = Normal (PromiseOf p))
          \<and> delivered (f self h as) = [] \<and> raised (f self h as) = []"
      by (simp only: returns_promise_def)
  qed
next
  show "n = ''presignedPostPolicy'' \<longrightarrow>
            delivered (f self h as) = []
          \<and> (build_policy self h as = None \<longrightarrow>
               (\<exists>p. returned (f self h as) = Normal (PromiseOf p)))"
  proof (rule impI)
    assume "n = ''presignedPostPolicy''"
    with assms have f: "f = presignedPostPolicy"
      by (simp add: prototype_presignedPostPolicy)
    show "delivered (f self h as) = []
          \<and> (build_policy self h as = None \<longrightarrow>
               (\<exists>p. returned (f self h as) = Normal (PromiseOf p)))"
      unfolding f by (rule presignedPostPolicy_shape)
  qed
next
  show "n = ''getBucketVersioning'' \<longrightarrow>
            (\<forall>p. returned (f self h as) \<noteq> Normal (PromiseOf p))
          \<and> (\<forall>r v invs. client self = JRef r
                \<and> client_method h r
                    (ClientCall ''getBucketVersioning'' [JObj [(''Bucket'', arg as 0)]] True)
                  = Returns v invs \<longrightarrow>
                returned (f self h as) = Normal (Value JUndefined)
              \<and> (callable (arg as 1) \<longrightarrow>
                    delivered (f self h as)
                      = map (\<lambda>(err, data). (arg as 1, if truthy err then [err] else [JNull, data]))
                          invs)
              \<and> (\<not> callable (arg as 1) \<longrightarrow> delivered (f self h as) = [])
              \<and> (truthy (arg as 1) \<and> \<not> callable (arg as 1) \<longrightarrow>
                    raised (f self h as) = replicate (length invs) TypeError))"
  proof (rule impI)
    assume "n = ''getBucketVersioning''"
    with assms have f: "f = getBucketVersioning"
      by (simp add: prototype_getBucketVersioning)
    show "(\<forall>p. returned (f self h as) \<noteq> Normal (PromiseOf p))
          \<and> (\<forall>r v invs. client self = JRef r
                \<and> client_method h r
                    (ClientCall ''getBucketVersioning'' [JObj [(''Bucket'', arg as 0)]] True)
                  = Returns v invs \<longrightarrow>
                returned (f self h as) = Normal (Value JUndefined)
              \<and> (callable (arg as 1) \<longrightarrow>
                    delivered (f self h as)
                      = map (\<lambda>(err, data). (arg as 1, if truthy err then [err] else [JNull, data]))
                          invs)
              \<and> (\<not> callable (arg as 1) \<longrightarrow> delivered (f self h as) = [])
              \<and> (truthy (arg as 1) \<and> \<not> callable (arg as 1) \<longrightarrow>
                    raised (f self h as) = replicate (length invs) TypeError))"
      unfolding f by (rule getBucketVersioning_shape)
  qed
qed

theorem uniform_promise_contract_witness:
  "(''listIncompleteUploads'', listIncompleteUploads) \<in> set MinioDB_prototype
   \<and> (\<exists>p. returned (listIncompleteUploads ready_connector sample_host
                       [JStr ''test'', JStr ''a'', JBool True, JFn 3])
            = Normal (PromiseOf p))
   \<and> delivered (listIncompleteUploads ready_connector sample_host
                  [JStr ''test'', JStr ''a'', JBool True, JFn 3]) = []
   \<and> returned (listIncompleteUploads ready_connector sample_host
                 [JStr ''test'', JStr ''a'', JBool True, JFn 3])
        = Normal (PromiseOf (Fulfilled (JRef 50)))"
proof -
  have a: "(''listIncompleteUploads'', listIncompleteUploads) \<in> set MinioDB_prototype"
    by (simp add: MinioDB_prototype_def)
  from uniform_promise_contract [OF a, of ready_connector sample_host
      "[JStr ''test'', JStr ''a'', JBool True, JFn 3]"]
  have "(\<exists>p. returned (listIncompleteUploads ready_connector sample_host
                       [JStr ''test'', JStr ''a'', JBool True, JFn 3])
            = Normal (PromiseOf p))
      \<and> delivered (listIncompleteUploads ready_connector sample_host
                  [JStr ''test'', JStr ''a'', JBool True, JFn 3]) = []"
    by simp
  moreover have "returned (listIncompleteUploads ready_connector sample_host
                 [JStr ''test'', JStr ''a'', JBool True, JFn 3])
        = Normal (PromiseOf (Fulfilled (JRef 50)))"
    by (simp add: listIncompleteUploads_def forward_stream_def ready_call sample_host_def
        resolve_value_def thenable_def)
  ultimately show ?thesis using a by blast
qed

text \<open>
  The contract without the exception fails on \<^verbatim>\<open>getBucketVersioning\<close>: with a
  callback the value reaches the callback only, and without one it reaches nobody.
\<close>

theorem getBucketVersioning_callback_counterexample:
  "(''getBucketVersioning'', getBucketVersioning) \<in> set MinioDB_prototype
   \<and> returned (getBucketVersioning ready_connector sample_host [JStr ''test'', JFn 3])
        = Normal (Value JUndefined)
   \<and> delivered (getBucketVersioning ready_connector sample_host [JStr ''test'', JFn 3])
        = [(JFn 3, [JNull, JStr ''data''])]
   \<and> returned (getBucketVersioning ready_connector sample_host [JStr ''test''])
        = Normal (Value JUndefined)
   \<and> delivered (getBucketVersioning ready_connector sample_host [JStr ''test'']) = []"
  by (simp add: MinioDB_prototype_def getBucketVersioning_def
      ready_call sample_host_def arg_def)


section \<open>Properties of all operations: the arguments\<close>

lemma forwardsI:
  "(\<And>self h as. calls (f self h as) = made self (ClientCall m (map (arg as) [0..<k]) cb))
     \<Longrightarrow> forwards m k cb f"
  by (simp add: forwards_def made_def)

lemma calls_forward_callback:
  "calls (forward_callback self h label m xs rw) = made self (ClientCall m xs True)"
  by (simp add: forward_callback_def)

lemma calls_forward_stream:
  "calls (forward_stream self h label m xs) = made self (ClientCall m xs False)"
  by (simp add: forward_stream_def)

lemma forwarded_rows:
  "forwards ''listBuckets'' 0 True listBuckets"
  "forwards ''bucketExists'' 1 True bucketExists"
  "forwards ''removeBucket'' 1 True removeBucket"
  "forwards ''listObjects'' 4 False listObjects"
  "forwards ''listObjectsV2'' 4 False listObjectsV2WithMetadata"
  "forwards ''setBucketVersioning'' 2 True setBucketVersioning"
  "forwards ''setBucketReplication'' 2 True setBucketReplication"
  "forwards ''getBucketReplication'' 1 True getBucketReplication"
  "forwards ''removeBucketReplication'' 1 True removeBucketReplication"
  "forwards ''getBucketTagging'' 1 True getBucketTagging"
  "forwards ''setBucketTagging'' 2 True setBucketTagging"
  "forwards ''removeBucketTagging'' 1 True removeBucketTagging"
  "forwards ''putBucketLifecycleConfiguration'' 2 True setBucketLifecycle"
  "forwards ''getBucketLifecycleConfiguration'' 1 True getBucketLifecycle"
  "forwards ''removeBucketLifecycleConfiguration'' 1 True removeBucketLifecycle"
  "forwards ''putObjectLockConfiguration'' 2 True setObjectLockConfig"
  "forwards ''getObjectLockConfiguration'' 1 True getObjectLockConfig"
  "forwards ''getBucketEncryption'' 1 True getBucketEncryption"
  "forwards ''setBucketEncryption'' 2 True setBucketEncryption"
  "forwards ''removeBucketEncryption'' 1 True removeBucketEncryption"
  "forwards ''getObject'' 3 False getObject"
  "forwards ''getPartialObject'' 5 False getPartialObject"
  "forwards ''fGetObject'' 3 True fGetObject"
  "forwards ''putObject'' 5 True putObject"
  "forwards ''fPutObject'' 3 True fPutObject"
  "forwards ''copyObject'' 4 True copyObject"
  "forwards ''statObject'' 2 True statObject"
  "forwards ''removeObject'' 3 True removeObject"
  "forwards ''removeObjects'' 2 True removeObjects"
  "forwards ''removeIncompleteUpload'' 2 True removeIncompleteUpload"
  "forwards ''putObjectRetention'' 3 True putObjectRetention"
  "forwards ''getObjectRetention'' 3 True getObjectRetention"
  "forwards ''setObjectRetention'' 4 True setObjectRetention"
  "forwards ''putObjectTagging'' 4 True setObjectTagging"
  "forwards ''removeObjectTagging'' 3 True removeObjectTagging"
  "forwards ''getObjectTagging'' 3 True getObjectTagging"
  "forwards ''getObjectLegalHold'' 3 True getObjectLegalHold"
  "forwards ''setObjectLegalHold'' 3 True setObjectLegalHold"
  "forwards ''composeObject'' 2 True composeObject"
  "forwards ''selectObjectContent'' 3 False selectObjectContent"
  "forwards ''presignedUrl'' 5 True presignedUrl"
  "forwards ''presignedGetObject'' 5 True presignedGetObject"
  "forwards ''presignedPutObject'' 3 True presignedPutObject"
  "forwards ''getBucketNotification'' 1 True getBucketNotification"
  "forwards ''setBucketNotification'' 2 True setBucketNotification"
  "forwards ''listenBucketNotification'' 1 False listenBucketNotification"
  "forwards ''getBucketPolicy'' 1 True getBucketPolicy"
  by (rule forwardsI,
      simp add: plain_op_defs setBucketVersioning_def calls_forward_callback
        calls_forward_stream eval_nat_numeral)+

lemma forwarding_holds:
  "list_all (\<lambda>(n, f, m, k, cb). forwards m k cb f) forwarding"
  by (simp only: forwarding_def list.pred_inject prod.case forwarded_rows simp_thms)

lemma forwarding_covers:
  "map (\<lambda>(n, f, m, k, cb). (n, f)) forwarding
     = filter (\<lambda>(n, f). n \<notin> {''makeBucket'', ''listObjectsV2'', ''listIncompleteUploads'', ''getBucketVersioning'',
                 ''setBucketPolicy'', ''presignedPostPolicy'', ''removeAllBucketNotification''}) MinioDB_prototype"
  by (simp add: forwarding_def MinioDB_prototype_def)

lemma forwarding_row:
  assumes "(n, f) \<in> set MinioDB_prototype"
    and "n \<notin> {''makeBucket'', ''listObjectsV2'', ''listIncompleteUploads'', ''getBucketVersioning'',
                 ''setBucketPolicy'', ''presignedPostPolicy'', ''removeAllBucketNotification''}"
  shows "\<exists>m k cb. (n, f, m, k, cb) \<in> set forwarding"
proof -
  from assms have "(n, f) \<in> set (filter (\<lambda>(n, f). n \<notin> {''makeBucket'', ''listObjectsV2'', ''listIncompleteUploads'', ''getBucketVersioning'',
                 ''setBucketPolicy'', ''presignedPostPolicy'', ''removeAllBucketNotification''}) MinioDB_prototype)"
    by simp
  then have "(n, f) \<in> set (map (\<lambda>(n, f, m, k, cb). (n, f)) forwarding)"
    by (simp only: forwarding_covers)
  then show ?thesis by auto
qed

lemma forwarding_call:
  assumes "(n, f, m, k, cb) \<in> set forwarding" and "client self = JRef r"
  shows "calls (f self h as) = [ClientCall m (map (arg as) [0..<k]) cb]"
proof -
  from forwarding_holds assms(1) have "forwards m k cb f"
    by (auto simp: list_all_iff)
  with assms(2) show ?thesis
    by (simp add: forwards_def)
qed

lemma prototype_setBucketPolicy:
  "(''setBucketPolicy'', f) \<in> set MinioDB_prototype \<Longrightarrow> f = setBucketPolicy"
  by (simp add: MinioDB_prototype_def)

lemma prototype_removeAllBucketNotification:
  "(''removeAllBucketNotification'', f) \<in> set MinioDB_prototype
     \<Longrightarrow> f = removeAllBucketNotification"
  by (simp add: MinioDB_prototype_def)

lemma prototype_makeBucket:
  "(''makeBucket'', f) \<in> set MinioDB_prototype \<Longrightarrow> f = makeBucket"
  by (simp add: MinioDB_prototype_def)

lemma makeBucket_calls:
  "client self = JRef r \<Longrightarrow>
     calls (makeBucket self h as)
              = [ClientCall ''makeBucket''
                   (if arg as 1 = JUndefined then [arg as 0] else [arg as 0, arg as 1]) True]"
  by (simp add: makeBucket_def calls_forward_callback made_def)

lemma setBucketPolicy_calls:
  "client self = JRef r \<Longrightarrow>
     (\<forall>t. JSON_stringify h (arg as 1) = Normal t \<longrightarrow>
               calls (setBucketPolicy self h as) = [ClientCall ''setBucketPolicy'' [arg as 0, t] True])
          \<and> (\<forall>e. JSON_stringify h (arg as 1) = Thrown e \<longrightarrow> calls (setBucketPolicy self h as) = [])"
  by (simp add: setBucketPolicy_def calls_forward_callback made_def)

lemma removeAllBucketNotification_calls:
  "client self = JRef r \<Longrightarrow>
     calls (removeAllBucketNotification self h as)
              = [ClientCall ''setBucketNotification''
                   [arg as 0,
                    JObj [(''QueueConfiguration'', JObj []), (''TopicConfiguration'', JObj []),
                         (''LambdaFunctionConfiguration'', JObj [])]] True]"
  by (simp add: removeAllBucketNotification_def calls_forward_callback made_def)

text \<open>
  C8, as amended. On a connector that has its client handle, every operation other
  than \<^verbatim>\<open>makeBucket\<close>, \<^verbatim>\<open>listObjectsV2\<close>, \<^verbatim>\<open>listIncompleteUploads\<close>,
  \<^verbatim>\<open>getBucketVersioning\<close>, \<^verbatim>\<open>setBucketPolicy\<close>, \<^verbatim>\<open>presignedPostPolicy\<close> and
  \<^verbatim>\<open>removeAllBucketNotification\<close> has a row in the table \<open>forwarding\<close>, and an operation
  with a row makes exactly one client call: the row's client method, with the caller's
  first \<open>k\<close> arguments in their order and unchanged (\<^verbatim>\<open>undefined\<close> where the caller
  passed none), followed by a completion callback or, for the stream operations, by
  nothing. \<^verbatim>\<open>makeBucket\<close> makes the one call \<^verbatim>\<open>makeBucket\<close> with the bucket name, and
  the region after it unless the region is \<^verbatim>\<open>undefined\<close>. \<^verbatim>\<open>setBucketPolicy\<close> makes
  the one call \<^verbatim>\<open>setBucketPolicy\<close> with the bucket name and \<^verbatim>\<open>JSON.stringify\<close> of the
  policy, and no call when the conversion throws. \<^verbatim>\<open>removeAllBucketNotification\<close>
  makes the one call \<^verbatim>\<open>setBucketNotification\<close> with the bucket name and a configuration
  of its own.
\<close>

theorem arguments_forwarded:
  assumes "(n, f) \<in> set MinioDB_prototype" and "client self = JRef r"
  shows "(n \<notin> {''makeBucket'', ''listObjectsV2'', ''listIncompleteUploads'', ''getBucketVersioning'',
                 ''setBucketPolicy'', ''presignedPostPolicy'', ''removeAllBucketNotification''} \<longrightarrow>
            (\<exists>m k cb. (n, f, m, k, cb) \<in> set forwarding))
       \<and> (\<forall>m k cb. (n, f, m, k, cb) \<in> set forwarding \<longrightarrow>
            calls (f self h as) = [ClientCall m (map (arg as) [0..<k]) cb])
       \<and> (n = ''makeBucket'' \<longrightarrow>
            calls (f self h as)
              = [ClientCall ''makeBucket''
                   (if arg as 1 = JUndefined then [arg as 0] else [arg as 0, arg as 1]) True])
       \<and> (n = ''setBucketPolicy'' \<longrightarrow>
            (\<forall>t. JSON_stringify h (arg as 1) = Normal t \<longrightarrow>
               calls (f self h as) = [ClientCall ''setBucketPolicy'' [arg as 0, t] True])
          \<and> (\<forall>e. JSON_stringify h (arg as 1) = Thrown e \<longrightarrow> calls (f self h as) = []))
       \<and> (n = ''removeAllBucketNotification'' \<longrightarrow>
            calls (f self h as)
              = [ClientCall ''setBucketNotification''
                   [arg as 0,
                    JObj [(''QueueConfiguration'', JObj []), (''TopicConfiguration'', JObj []),
                         (''LambdaFunctionConfiguration'', JObj [])]] True])"
proof (intro conjI)
  show "n \<notin> {''makeBucket'', ''listObjectsV2'', ''listIncompleteUploads'', ''getBucketVersioning'',
                 ''setBucketPolicy'', ''presignedPostPolicy'', ''removeAllBucketNotification''} \<longrightarrow>
            (\<exists>m k cb. (n, f, m, k, cb) \<in> set forwarding)"
    by (rule impI, rule forwarding_row [OF assms(1)])
next
  show "\<forall>m k cb. (n, f, m, k, cb) \<in> set forwarding \<longrightarrow>
            calls (f self h as) = [ClientCall m (map (arg as) [0..<k]) cb]"
    by (intro allI impI, rule forwarding_call [OF _ assms(2)])
next
  show "n = ''makeBucket'' \<longrightarrow>
            calls (f self h as)
              = [ClientCall ''makeBucket''
                   (if arg as 1 = JUndefined then [arg as 0] else [arg as 0, arg as 1]) True]"
  proof (rule impI)
    assume "n = ''makeBucket''"
    with assms(1) have f: "f = makeBucket"
      by (simp add: prototype_makeBucket)
    show "calls (f self h as)
              = [ClientCall ''makeBucket''
                   (if arg as 1 = JUndefined then [arg as 0] else [arg as 0, arg as 1]) True]"
      unfolding f using assms(2) by (rule makeBucket_calls)
  qed
next
  show "n = ''setBucketPolicy'' \<longrightarrow>
            (\<forall>t. JSON_stringify h (arg as 1) = Normal t \<longrightarrow>
               calls (f self h as) = [ClientCall ''setBucketPolicy'' [arg as 0, t] True])
          \<and> (\<forall>e. JSON_stringify h (arg as 1) = Thrown e \<longrightarrow> calls (f self h as) = [])"
  proof (rule impI)
    assume "n = ''setBucketPolicy''"
    with assms(1) have f: "f = setBucketPolicy"
      by (simp add: prototype_setBucketPolicy)
    show "(\<forall>t. JSON_stringify h (arg as 1) = Normal t \<longrightarrow>
               calls (f self h as) = [ClientCall ''setBucketPolicy'' [arg as 0, t] True])
          \<and> (\<forall>e. JSON_stringify h (arg as 1) = Thrown e \<longrightarrow> calls (f self h as) = [])"
      unfolding f using assms(2) by (rule setBucketPolicy_calls)
  qed
next
  show "n = ''removeAllBucketNotification'' \<longrightarrow>
            calls (f self h as)
              = [ClientCall ''setBucketNotification''
                   [arg as 0,
                    JObj [(''QueueConfiguration'', JObj []), (''TopicConfiguration'', JObj []),
                         (''LambdaFunctionConfiguration'', JObj [])]] True]"
  proof (rule impI)
    assume "n = ''removeAllBucketNotification''"
    with assms(1) have f: "f = removeAllBucketNotification"
      by (simp add: prototype_removeAllBucketNotification)
    show "calls (f self h as)
              = [ClientCall ''setBucketNotification''
                   [arg as 0,
                    JObj [(''QueueConfiguration'', JObj []), (''TopicConfiguration'', JObj []),
                         (''LambdaFunctionConfiguration'', JObj [])]] True]"
      unfolding f using assms(2) by (rule removeAllBucketNotification_calls)
  qed
qed

theorem arguments_forwarded_witness:
  "(''copyObject'', copyObject) \<in> set MinioDB_prototype
   \<and> client ready_connector = JRef 7
   \<and> (''copyObject'', copyObject, ''copyObject'', 4, True) \<in> set forwarding
   \<and> calls (copyObject ready_connector sample_host
              [JStr ''a'', JStr ''b'', JStr ''c'', JStr ''d'', JStr ''e''])
        = [ClientCall ''copyObject'' [JStr ''a'', JStr ''b'', JStr ''c'', JStr ''d''] True]
   \<and> calls (copyObject ready_connector sample_host [JStr ''a'', JStr ''b''])
        = [ClientCall ''copyObject'' [JStr ''a'', JStr ''b'', JUndefined, JUndefined] True]"
proof -
  have a: "(''copyObject'', copyObject) \<in> set MinioDB_prototype"
    by (simp add: MinioDB_prototype_def)
  have b: "client ready_connector = JRef 7"
    by (rule ready_connector_client)
  have c: "(''copyObject'', copyObject, ''copyObject'', 4, True) \<in> set forwarding"
    by (simp add: forwarding_def)
  note t = arguments_forwarded [OF a b, THEN conjunct2, THEN conjunct1, rule_format, OF c]
  have d: "calls (copyObject ready_connector sample_host
              [JStr ''a'', JStr ''b'', JStr ''c'', JStr ''d'', JStr ''e''])
        = [ClientCall ''copyObject'' [JStr ''a'', JStr ''b'', JStr ''c'', JStr ''d''] True]"
    using t [of sample_host "[JStr ''a'', JStr ''b'', JStr ''c'', JStr ''d'', JStr ''e'']"]
    by (simp add: arg_def eval_nat_numeral)
  have e: "calls (copyObject ready_connector sample_host [JStr ''a'', JStr ''b''])
        = [ClientCall ''copyObject'' [JStr ''a'', JStr ''b'', JUndefined, JUndefined] True]"
    using t [of sample_host "[JStr ''a'', JStr ''b'']"]
    by (simp add: arg_def eval_nat_numeral)
  show ?thesis
    by (rule conjI [OF a], rule conjI [OF b], rule conjI [OF c], rule conjI [OF d], rule e)
qed

text \<open>
  Forwarding without the exception fails on \<^verbatim>\<open>setBucketPolicy\<close>: the caller passes
  the empty policy object and the client receives the text \<^verbatim>\<open>{}\<close>.
\<close>

theorem setBucketPolicy_counterexample:
  "(''setBucketPolicy'', setBucketPolicy) \<in> set MinioDB_prototype
   \<and> calls (setBucketPolicy ready_connector sample_host [JStr ''test'', JObj []])
        = [ClientCall ''setBucketPolicy'' [JStr ''test'', JStr ''{}''] True]
   \<and> call_args (ClientCall ''setBucketPolicy'' [JStr ''test'', JStr ''{}''] True) ! 1
        \<noteq> arg [JStr ''test'', JObj []] 1"
  by (simp add: MinioDB_prototype_def setBucketPolicy_def forward_callback_def
      ready_connector_client ready_made sample_host_def arg_def)

section \<open>The operations the statements above leave out\<close>

text \<open>
  \<^verbatim>\<open>setBucketVersioning\<close> returns \<^verbatim>\<open>undefined\<close> whatever the client does, since its
  promise is built and dropped; \<^verbatim>\<open>removeObject\<close> fulfils its promise with
  \<^verbatim>\<open>true\<close>, not with what the client passed; \<^verbatim>\<open>listObjectsV2\<close> hands the client
  one object in place of its three parameters.
\<close>

lemma setBucketVersioning_returns_undefined:
  "returned (setBucketVersioning self h as) = Normal (Value JUndefined)"
  by (simp add: setBucketVersioning_def)

lemma removeObject_resolves_true:
  "returned (removeObject ready_connector sample_host [JStr ''test'', JStr ''a''])
     = Normal (PromiseOf (Fulfilled (JBool True)))"
  by (simp add: removeObject_def forward_callback_def promise_of_callback_def ready_call
      sample_host_def resolve_value_def thenable_def)

lemma listObjectsV2_wraps:
  "calls (listObjectsV2 ready_connector sample_host [JStr ''test'', JStr ''a'', JBool True])
     = [ClientCall ''listObjectsV2''
          [JObj [(''Bucket'', JStr ''test''), (''Prefix'', JStr ''a''),
                 (''Recursive'', JBool True)]] False]"
  by (simp add: listObjectsV2_def forward_stream_def ready_made arg_def)

end
